theory Spec2Isabelle
  imports Complex_Main
begin

section \<open>The relational store of schema.sql\<close>

text \<open>
  The controllers talk to a MySQL store whose tables are declared in
  \<^verbatim>\<open>src/database/schema.sql\<close>. Every table is a list of rows in insertion order, every
  row a record of the columns the order, payment, refund and cart workflows read or
  write. Timestamps (\<^verbatim>\<open>created_at\<close>, \<^verbatim>\<open>updated_at\<close>) are left out: the list order of
  \<^verbatim>\<open>order_status_history\<close> stands for the order of insertion.

  Amounts are rationals. The arithmetic of the controllers on them (JavaScript numbers)
  is taken as exact; the rounding of a \<^verbatim>\<open>DECIMAL(10, 2)\<close> column is modelled.

  Requests run one after the other: each controller call takes the store and returns the
  store it leaves behind. Foreign keys are not checked by the statements below; the
  controllers look a row up before they insert a reference to it.
\<close>

record product_row =
  p_id :: nat
  p_price :: rat
  p_stock :: int

record order_row =
  o_id :: nat
  o_user_id :: nat
  o_order_number :: string
  o_total_amount :: rat
  o_status :: string
  o_shipping_name :: string
  o_shipping_email :: string
  o_shipping_address :: string
  o_shipping_city :: string
  o_shipping_zip :: string

record order_item_row =
  oi_order_id :: nat
  oi_product_id :: nat
  oi_quantity :: int
  oi_price :: rat

text \<open>The \<^verbatim>\<open>payment_details\<close> column holds \<^verbatim>\<open>JSON.stringify\<close> of either the object
  \<^verbatim>\<open>{payment_method: m}\<close> or the details the caller sent.\<close>

datatype payment_details = Method_only string | Supplied string

record transaction_row =
  t_id :: nat
  t_order_id :: nat
  t_transaction_id :: string
  t_amount :: rat
  t_payment_method :: string
  t_status :: string
  t_payment_details :: payment_details

record status_history_row =
  h_order_id :: nat
  h_status :: string
  h_notes :: string

record cart_row =
  c_id :: nat
  c_user_id :: nat

record cart_item_row =
  ci_id :: nat
  ci_cart_id :: nat
  ci_product_id :: nat
  ci_quantity :: int

text \<open>The \<open>next_\<close> fields are the \<^verbatim>\<open>AUTO_INCREMENT\<close> counters of the tables.\<close>

record db =
  products :: "product_row list"
  orders :: "order_row list"
  order_items :: "order_item_row list"
  transactions :: "transaction_row list"
  order_status_history :: "status_history_row list"
  carts :: "cart_row list"
  cart_items :: "cart_item_row list"
  next_order_id :: nat
  next_transaction_id :: nat
  next_cart_id :: nat
  next_cart_item_id :: nat

subsection \<open>Column types\<close>

text \<open>
  The store runs in strict SQL mode (the default of every MySQL release that accepts
  the \<^verbatim>\<open>JSON\<close> columns of the schema): a value that does not fit its column makes the
  statement fail. \<open>None\<close> is that failure. An \<^verbatim>\<open>ENUM\<close> column takes the values of its
  declaration, compared as they are written.
\<close>

definition order_status_enum :: "string list" where
  "order_status_enum = [''pending'', ''processing'', ''shipped'', ''delivered'', ''cancelled'']"

definition transaction_status_enum :: "string list" where
  "transaction_status_enum = [''pending'', ''completed'', ''failed'', ''refunded'']"

definition enum_col :: "string list \<Rightarrow> string \<Rightarrow> string option" where
  "enum_col allowed v = (if v \<in> set allowed then Some v else None)"

definition int_col :: "int \<Rightarrow> int option" where
  "int_col v = (if - 2147483648 \<le> v \<and> v \<le> 2147483647 then Some v else None)"

definition varchar_col :: "nat \<Rightarrow> string \<Rightarrow> string option" where
  "varchar_col n v = (if length v \<le> n then Some v else None)"

text \<open>\<^verbatim>\<open>DECIMAL(10, 2)\<close>: two decimals, rounded half away from zero, at most
  \<open>99999999.99\<close> in absolute value.\<close>

definition round_cents :: "rat \<Rightarrow> rat" where
  "round_cents x =
     (if 0 \<le> x then of_int \<lfloor>x * 100 + 1 / 2\<rfloor> / 100
      else - (of_int \<lfloor>- x * 100 + 1 / 2\<rfloor> / 100))"

definition decimal_col :: "rat \<Rightarrow> rat option" where
  "decimal_col v =
     (let r = round_cents v in if \<bar>r\<bar> \<le> 9999999999 / 100 then Some r else None)"

subsection \<open>Statements\<close>

text \<open>Each function is one SQL statement of the controllers: the new store, or \<open>None\<close>
  when the statement raises.\<close>

record shipping_info =
  s_name :: string
  s_email :: string
  s_address :: string
  s_city :: string
  s_zip :: string

definition shipping_fits :: "shipping_info \<Rightarrow> bool" where
  "shipping_fits s \<longleftrightarrow>
     length (s_name s) \<le> 100 \<and> length (s_email s) \<le> 100 \<and> length (s_address s) \<le> 65535
     \<and> length (s_city s) \<le> 100 \<and> length (s_zip s) \<le> 20"

text \<open>\<^verbatim>\<open>INSERT INTO orders (user_id, order_number, total_amount, shipping_...)\<close>; the
  status column takes its default \<^verbatim>\<open>'pending'\<close>, \<^verbatim>\<open>order_number\<close> is \<^verbatim>\<open>UNIQUE\<close>.\<close>

definition insert_order :: "nat \<Rightarrow> string \<Rightarrow> rat \<Rightarrow> shipping_info \<Rightarrow> db \<Rightarrow> db option" where
  "insert_order uid onum amount ship d =
     (case decimal_col amount of
        None \<Rightarrow> None
      | Some t \<Rightarrow>
          if shipping_fits ship \<and> length onum \<le> 50
             \<and> onum \<notin> set (map o_order_number (orders d))
          then Some (d\<lparr>orders := orders d @
                 [\<lparr>o_id = next_order_id d, o_user_id = uid, o_order_number = onum,
                   o_total_amount = t, o_status = ''pending'',
                   o_shipping_name = s_name ship, o_shipping_email = s_email ship,
                   o_shipping_address = s_address ship, o_shipping_city = s_city ship,
                   o_shipping_zip = s_zip ship\<rparr>],
                 next_order_id := Suc (next_order_id d)\<rparr>)
          else None)"

text \<open>\<^verbatim>\<open>INSERT INTO order_items (order_id, product_id, quantity, price)\<close>\<close>

definition insert_order_item :: "nat \<Rightarrow> nat \<Rightarrow> int \<Rightarrow> rat \<Rightarrow> db \<Rightarrow> db option" where
  "insert_order_item oid pid qty price d =
     (case (int_col qty, decimal_col price) of
        (Some q, Some p) \<Rightarrow>
          Some (d\<lparr>order_items := order_items d @
                 [\<lparr>oi_order_id = oid, oi_product_id = pid, oi_quantity = q, oi_price = p\<rparr>]\<rparr>)
      | _ \<Rightarrow> None)"

text \<open>\<^verbatim>\<open>UPDATE products SET stock = stock + ? WHERE id = ?\<close> (with a negated amount:
  \<^verbatim>\<open>stock = stock - ?\<close>). The column is a signed \<^verbatim>\<open>INT\<close>: a negative stock is stored,
  a stock out of the 32-bit range makes the statement fail.\<close>

definition shift_stock :: "nat \<Rightarrow> int \<Rightarrow> product_row list \<Rightarrow> product_row list" where
  "shift_stock pid delta rows =
     map (\<lambda>p. if p_id p = pid then p\<lparr>p_stock := p_stock p + delta\<rparr> else p) rows"

definition add_stock :: "nat \<Rightarrow> int \<Rightarrow> db \<Rightarrow> db option" where
  "add_stock pid delta d =
     (if list_all (\<lambda>p. int_col (p_stock p + delta) \<noteq> None)
           (filter (\<lambda>p. p_id p = pid) (products d))
      then Some (d\<lparr>products := shift_stock pid delta (products d)\<rparr>)
      else None)"

text \<open>\<^verbatim>\<open>INSERT INTO transactions (order_id, transaction_id, amount, payment_method,
  status, payment_details)\<close>; \<^verbatim>\<open>transaction_id\<close> is \<^verbatim>\<open>UNIQUE\<close>.\<close>

definition insert_transaction ::
  "nat \<Rightarrow> string \<Rightarrow> rat \<Rightarrow> string \<Rightarrow> string \<Rightarrow> payment_details \<Rightarrow> db \<Rightarrow> db option" where
  "insert_transaction oid txid amount method status details d =
     (case (decimal_col amount, enum_col transaction_status_enum status) of
        (Some a, Some s) \<Rightarrow>
          if length txid \<le> 100 \<and> length method \<le> 50
             \<and> txid \<notin> set (map t_transaction_id (transactions d))
          then Some (d\<lparr>transactions := transactions d @
                 [\<lparr>t_id = next_transaction_id d, t_order_id = oid, t_transaction_id = txid,
                   t_amount = a, t_payment_method = method, t_status = s,
                   t_payment_details = details\<rparr>],
                 next_transaction_id := Suc (next_transaction_id d)\<rparr>)
          else None
      | _ \<Rightarrow> None)"

text \<open>\<^verbatim>\<open>INSERT INTO order_status_history (order_id, status, notes)\<close>\<close>

definition insert_status_history :: "nat \<Rightarrow> string \<Rightarrow> string \<Rightarrow> db \<Rightarrow> db option" where
  "insert_status_history oid status notes d =
     (case (enum_col order_status_enum status, varchar_col 65535 notes) of
        (Some s, Some n) \<Rightarrow>
          Some (d\<lparr>order_status_history := order_status_history d @
                 [\<lparr>h_order_id = oid, h_status = s, h_notes = n\<rparr>]\<rparr>)
      | _ \<Rightarrow> None)"

text \<open>\<^verbatim>\<open>UPDATE orders SET status = ? WHERE id = ?\<close>\<close>

definition set_order_status :: "nat \<Rightarrow> string \<Rightarrow> db \<Rightarrow> db option" where
  "set_order_status oid status d =
     (case enum_col order_status_enum status of
        None \<Rightarrow> if filter (\<lambda>r. o_id r = oid) (orders d) = [] then Some d else None
      | Some s \<Rightarrow>
          Some (d\<lparr>orders :=
            map (\<lambda>r. if o_id r = oid then r\<lparr>o_status := s\<rparr> else r) (orders d)\<rparr>))"

text \<open>\<^verbatim>\<open>UPDATE transactions SET status = ? WHERE id = ?\<close>\<close>

definition set_transaction_status :: "nat \<Rightarrow> string \<Rightarrow> db \<Rightarrow> db option" where
  "set_transaction_status tid status d =
     (case enum_col transaction_status_enum status of
        None \<Rightarrow> if filter (\<lambda>r. t_id r = tid) (transactions d) = [] then Some d else None
      | Some s \<Rightarrow>
          Some (d\<lparr>transactions :=
            map (\<lambda>r. if t_id r = tid then r\<lparr>t_status := s\<rparr> else r) (transactions d)\<rparr>))"

text \<open>\<^verbatim>\<open>DELETE FROM cart_items WHERE cart_id = ?\<close>\<close>

definition delete_cart_items :: "nat \<Rightarrow> db \<Rightarrow> db option" where
  "delete_cart_items cid d =
     Some (d\<lparr>cart_items := filter (\<lambda>r. ci_cart_id r \<noteq> cid) (cart_items d)\<rparr>)"

text \<open>\<^verbatim>\<open>INSERT INTO carts (user_id)\<close>; \<^verbatim>\<open>user_id\<close> is \<^verbatim>\<open>UNIQUE\<close>.\<close>

definition insert_cart :: "nat \<Rightarrow> db \<Rightarrow> db option" where
  "insert_cart uid d =
     (if uid \<notin> set (map c_user_id (carts d))
      then Some (d\<lparr>carts := carts d @ [\<lparr>c_id = next_cart_id d, c_user_id = uid\<rparr>],
                  next_cart_id := Suc (next_cart_id d)\<rparr>)
      else None)"

text \<open>\<^verbatim>\<open>INSERT INTO cart_items (cart_id, product_id, quantity)\<close>; the pair
  \<^verbatim>\<open>(cart_id, product_id)\<close> is \<^verbatim>\<open>UNIQUE\<close>.\<close>

definition insert_cart_item :: "nat \<Rightarrow> nat \<Rightarrow> int \<Rightarrow> db \<Rightarrow> db option" where
  "insert_cart_item cid pid qty d =
     (case int_col qty of
        None \<Rightarrow> None
      | Some q \<Rightarrow>
          if filter (\<lambda>r. ci_cart_id r = cid \<and> ci_product_id r = pid) (cart_items d) = []
          then Some (d\<lparr>cart_items := cart_items d @
                 [\<lparr>ci_id = next_cart_item_id d, ci_cart_id = cid, ci_product_id = pid,
                   ci_quantity = q\<rparr>],
                 next_cart_item_id := Suc (next_cart_item_id d)\<rparr>)
          else None)"

text \<open>\<^verbatim>\<open>UPDATE cart_items SET quantity = ? WHERE id = ?\<close>\<close>

definition set_cart_item_quantity :: "nat \<Rightarrow> int \<Rightarrow> db \<Rightarrow> db option" where
  "set_cart_item_quantity iid qty d =
     (case int_col qty of
        None \<Rightarrow> if filter (\<lambda>r. ci_id r = iid) (cart_items d) = [] then Some d else None
      | Some q \<Rightarrow>
          Some (d\<lparr>cart_items :=
            map (\<lambda>r. if ci_id r = iid then r\<lparr>ci_quantity := q\<rparr> else r) (cart_items d)\<rparr>))"

section \<open>A pooled connection\<close>

text \<open>
  \<open>live\<close> is the store as the connection sees it. \<open>saved\<close> is the store at
  \<^verbatim>\<open>beginTransaction()\<close> while a transaction is open, and \<open>None\<close> in autocommit mode,
  in which every statement is committed as it runs. \<open>issued\<close> counts the statements
  of the current request. \<^verbatim>\<open>pool.getConnection()\<close> hands out a connection in autocommit
  mode, the state in which mysql2 opens it.

  A fault plan says which statements of a request the store refuses (a lost
  connection, a lock timeout); \<open>no_fault\<close> refuses none.
\<close>

record conn =
  live :: db
  saved :: "db option"
  issued :: nat

type_synonym fault = "nat \<Rightarrow> bool"

definition no_fault :: fault where
  "no_fault = (\<lambda>k. False)"

definition getConnection :: "db \<Rightarrow> conn" where
  "getConnection d = \<lparr>live = d, saved = None, issued = 0\<rparr>"

text \<open>\<open>Inl c\<close>: the call threw, leaving the connection as \<open>c\<close>.\<close>

definition query :: "fault \<Rightarrow> (db \<Rightarrow> db option) \<Rightarrow> conn \<Rightarrow> conn + conn" where
  "query F stmt c =
     (let c' = c\<lparr>issued := Suc (issued c)\<rparr> in
      if F (issued c) then Inl c'
      else case stmt (live c) of None \<Rightarrow> Inl c' | Some d \<Rightarrow> Inr (c'\<lparr>live := d\<rparr>))"

definition beginTransaction :: "fault \<Rightarrow> conn \<Rightarrow> conn + conn" where
  "beginTransaction F c =
     (let c' = c\<lparr>issued := Suc (issued c)\<rparr> in
      if F (issued c) then Inl c' else Inr (c'\<lparr>saved := Some (live c)\<rparr>))"

definition commit :: "fault \<Rightarrow> conn \<Rightarrow> conn + conn" where
  "commit F c =
     (let c' = c\<lparr>issued := Suc (issued c)\<rparr> in
      if F (issued c) then Inl c' else Inr (c'\<lparr>saved := None\<rparr>))"

text \<open>A rollback restores the rows; InnoDB does not hand back the \<^verbatim>\<open>AUTO_INCREMENT\<close>
  values a rolled-back insert took. Outside a transaction there is nothing to undo.\<close>

definition rollback :: "conn \<Rightarrow> conn" where
  "rollback c =
     (case saved c of
        None \<Rightarrow> c
      | Some s \<Rightarrow>
          c\<lparr>live := s\<lparr>next_order_id := next_order_id (live c),
                       next_transaction_id := next_transaction_id (live c),
                       next_cart_id := next_cart_id (live c),
                       next_cart_item_id := next_cart_item_id (live c)\<rparr>,
            saved := None\<rparr>)"

text \<open>What the other connections see once this one is released: the committed rows.\<close>

definition release :: "conn \<Rightarrow> db" where
  "release c = (case saved c of None \<Rightarrow> live c | Some s \<Rightarrow> s)"

definition andThen :: "conn + 'a \<Rightarrow> ('a \<Rightarrow> conn + 'b) \<Rightarrow> conn + 'b" where
  "andThen m f = (case m of Inl c \<Rightarrow> Inl c | Inr a \<Rightarrow> f a)"

section \<open>Responses\<close>

datatype payload =
    Message string
  | OrderCreated nat string string
  | PaymentProcessed string
  | CartContents nat nat "(cart_item_row \<times> product_row) list"

text \<open>\<open>Rejected s m\<close> is \<^verbatim>\<open>res.status(s).json({message: m})\<close> with \<open>s \<ge> 400\<close>,
  \<open>Sent s p\<close> a success response, \<open>Errored\<close> is \<^verbatim>\<open>next(error)\<close>, which the error
  middleware of \<^verbatim>\<open>server.js\<close> answers with status 500.\<close>

datatype response = Rejected nat string | Sent nat payload | Errored

text \<open>The \<^verbatim>\<open>try / catch / finally\<close> frame every controller shares:
  \<^verbatim>\<open>catch (error) { await connection.rollback(); next(error); } finally { connection.release(); }\<close>\<close>

definition finish :: "conn + (response \<times> conn) \<Rightarrow> response \<times> db" where
  "finish r =
     (case r of
        Inl c \<Rightarrow> (Errored, release (rollback c))
      | Inr (resp, c) \<Rightarrow> (resp, release c))"

text \<open>Decimal notation, as a template literal prints a number.\<close>

fun show_digits :: "nat \<Rightarrow> string" where
  "show_digits n =
     (if n < 10 then [''0123456789'' ! n]
      else show_digits (n div 10) @ [''0123456789'' ! (n mod 10)])"

declare show_digits.simps [simp del]

definition show_int :: "int \<Rightarrow> string" where
  "show_int i = (if i < 0 then CHR ''-'' # show_digits (nat (- i)) else show_digits (nat i))"

section \<open>orderController.js\<close>

text \<open>A line of \<^verbatim>\<open>req.body.items\<close>: \<^verbatim>\<open>{id, quantity, price}\<close>.\<close>

record line =
  l_id :: nat
  l_quantity :: int
  l_price :: rat

text \<open>The request of \<^verbatim>\<open>createOrder\<close>. \<open>userId\<close> is \<^verbatim>\<open>req.user.id\<close> (\<open>0\<close> is the falsy
  value \<^verbatim>\<open>!userId\<close> tests for). \<open>orderNumber\<close> and \<open>transactionId\<close> are the strings
  built from \<^verbatim>\<open>Date.now()\<close> and \<^verbatim>\<open>Math.random()\<close>.\<close>

record order_request =
  userId :: nat
  items :: "line list"
  shippingInfo :: shipping_info
  paymentMethod :: string
  orderNumber :: string
  transactionId :: string

text \<open>The first loop of \<^verbatim>\<open>createOrder\<close>: one \<^verbatim>\<open>SELECT id FROM products WHERE id = ?\<close>
  per line; \<open>Some i\<close> is the early return at the first line whose product is missing.\<close>

fun verify_products :: "fault \<Rightarrow> line list \<Rightarrow> conn \<Rightarrow> conn + (nat option \<times> conn)" where
  "verify_products F [] c = Inr (None, c)"
| "verify_products F (item # rest) c =
     (case query F Some c of
        Inl c' \<Rightarrow> Inl c'
      | Inr c' \<Rightarrow>
          if filter (\<lambda>p. p_id p = l_id item) (products (live c')) = []
          then Inr (Some (l_id item), c')
          else verify_products F rest c')"

text \<open>The second loop: insert the order item, then decrement the stock.\<close>

fun add_order_items :: "fault \<Rightarrow> nat \<Rightarrow> line list \<Rightarrow> conn \<Rightarrow> conn + conn" where
  "add_order_items F oid [] c = Inr c"
| "add_order_items F oid (item # rest) c =
     andThen (query F (insert_order_item oid (l_id item) (l_quantity item) (l_price item)) c)
       (\<lambda>c. andThen (query F (add_stock (l_id item) (- l_quantity item)) c)
          (add_order_items F oid rest))"

definition totalAmount :: "line list \<Rightarrow> rat" where
  "totalAmount ls = foldl (\<lambda>sum item. sum + l_price item * of_int (l_quantity item)) 0 ls"

definition clear_cart_of :: "fault \<Rightarrow> nat \<Rightarrow> conn \<Rightarrow> conn + conn" where
  "clear_cart_of F uid c =
     andThen (query F Some c)
       (\<lambda>c. case filter (\<lambda>r. c_user_id r = uid) (carts (live c)) of
               [] \<Rightarrow> Inr c
             | cart # _ \<Rightarrow> query F (delete_cart_items (c_id cart)) c)"

text \<open>The statements of \<^verbatim>\<open>createOrder\<close> after \<^verbatim>\<open>beginTransaction()\<close>. \<open>orderId\<close> is
  \<^verbatim>\<open>orderResult.insertId\<close>, the counter value the insert takes.\<close>

definition createOrder_steps :: "fault \<Rightarrow> order_request \<Rightarrow> conn \<Rightarrow> conn + (response \<times> conn)" where
  "createOrder_steps F req c =
      (if userId req = 0 then Inr (Rejected 401 ''User not authenticated'', c)
       else andThen (verify_products F (items req) c) (\<lambda>(missing, c).
         case missing of
           Some pid \<Rightarrow>
             Inr (Rejected 400 (''Product with ID '' @ show_digits pid @ '' not found''), c)
         | None \<Rightarrow>
             let orderId = next_order_id (live c) in
             andThen (query F (insert_order (userId req) (orderNumber req)
                        (totalAmount (items req)) (shippingInfo req)) c) (\<lambda>c.
               if orderId = 0 then Inl c
               else andThen (add_order_items F orderId (items req) c) (\<lambda>c.
                 andThen (query F (insert_transaction orderId (transactionId req)
                            (totalAmount (items req)) (paymentMethod req) ''completed''
                            (Method_only (paymentMethod req))) c) (\<lambda>c.
                   andThen (query F (insert_status_history orderId ''pending''
                              ''Order created and payment received'') c) (\<lambda>c.
                     andThen (clear_cart_of F (userId req) c) (\<lambda>c.
                       andThen (commit F c) (\<lambda>c.
                         Inr (Sent 201 (OrderCreated orderId (orderNumber req)
                                (transactionId req)), c)))))))))"

definition createOrder_body :: "fault \<Rightarrow> order_request \<Rightarrow> conn \<Rightarrow> conn + (response \<times> conn)" where
  "createOrder_body F req c0 = andThen (beginTransaction F c0) (createOrder_steps F req)"

definition createOrder :: "fault \<Rightarrow> db \<Rightarrow> order_request \<Rightarrow> response \<times> db" where
  "createOrder F d req = finish (createOrder_body F req (getConnection d))"

text \<open>The loop shared by the cancellation and the refund:
  \<^verbatim>\<open>UPDATE products SET stock = stock + ? WHERE id = ?\<close> for each item.\<close>

fun return_stock :: "fault \<Rightarrow> order_item_row list \<Rightarrow> conn \<Rightarrow> conn + conn" where
  "return_stock F [] c = Inr c"
| "return_stock F (item # rest) c =
     andThen (query F (add_stock (oi_product_id item) (oi_quantity item)) c)
       (return_stock F rest)"

definition items_of_order :: "fault \<Rightarrow> nat \<Rightarrow> conn \<Rightarrow> conn + (order_item_row list \<times> conn)" where
  "items_of_order F oid c =
     andThen (query F Some c)
       (\<lambda>c. Inr (filter (\<lambda>i. oi_order_id i = oid) (order_items (live c)), c))"

text \<open>\<^verbatim>\<open>updateOrderStatus\<close> never calls \<^verbatim>\<open>beginTransaction()\<close>: it runs on the
  connection as the pool hands it out. \<open>notes\<close> is \<^verbatim>\<open>req.body.notes\<close>, \<open>None\<close> when
  absent.\<close>

definition status_notes :: "string option \<Rightarrow> string \<Rightarrow> string" where
  "status_notes notes status =
     (case notes of
        None \<Rightarrow> ''Status updated to '' @ status
      | Some n \<Rightarrow> if n = [] then ''Status updated to '' @ status else n)"

definition updateOrderStatus_writes ::
  "fault \<Rightarrow> nat \<Rightarrow> string \<Rightarrow> string option \<Rightarrow> conn \<Rightarrow> conn + (response \<times> conn)" where
  "updateOrderStatus_writes F oid status notes c0 =
     andThen (query F (set_order_status oid status) c0) (\<lambda>c.
       andThen (query F (insert_status_history oid status (status_notes notes status)) c) (\<lambda>c.
         andThen (if status = ''cancelled''
                  then andThen (items_of_order F oid c) (\<lambda>(its, c). return_stock F its c)
                  else Inr c) (\<lambda>c.
           andThen (commit F c) (\<lambda>c.
             Inr (Sent 200 (Message ''Order status updated successfully''), c)))))"

definition updateOrderStatus_body ::
  "fault \<Rightarrow> nat \<Rightarrow> string \<Rightarrow> string option \<Rightarrow> conn \<Rightarrow> conn + (response \<times> conn)" where
  "updateOrderStatus_body F oid status notes c0 =
     andThen (query F Some c0) (\<lambda>c.
       if filter (\<lambda>r. o_id r = oid) (orders (live c)) = []
       then Inr (Rejected 404 ''Order not found'', c)
       else updateOrderStatus_writes F oid status notes c)"

definition updateOrderStatus ::
  "fault \<Rightarrow> db \<Rightarrow> nat \<Rightarrow> string \<Rightarrow> string option \<Rightarrow> response \<times> db" where
  "updateOrderStatus F d oid status notes =
     finish (updateOrderStatus_body F oid status notes (getConnection d))"

section \<open>transactionController.js\<close>

text \<open>\<^verbatim>\<open>processPayment\<close>: \<open>details\<close> is \<^verbatim>\<open>req.body.paymentDetails\<close>, \<open>None\<close> when absent;
  \<open>txid\<close> is the generated transaction identifier.\<close>

definition processPayment_steps ::
  "fault \<Rightarrow> nat \<Rightarrow> nat \<Rightarrow> string \<Rightarrow> string option \<Rightarrow> string \<Rightarrow> conn
     \<Rightarrow> conn + (response \<times> conn)" where
  "processPayment_steps F uid oid method details txid c0 =
       andThen (query F Some c0) (\<lambda>c.
         case filter (\<lambda>r. o_id r = oid \<and> o_user_id r = uid) (orders (live c)) of
           [] \<Rightarrow> Inr (Rejected 404 ''Order not found'', c)
         | order # _ \<Rightarrow>
             andThen (query F Some c) (\<lambda>c.
               if filter (\<lambda>t. t_order_id t = oid) (transactions (live c)) \<noteq> []
               then Inr (Rejected 400 ''Payment already processed for this order'', c)
               else andThen (query F (insert_transaction oid txid (o_total_amount order) method
                               ''completed''
                               (case details of None \<Rightarrow> Method_only method
                                | Some p \<Rightarrow> Supplied p)) c) (\<lambda>c.
                 andThen (query F (set_order_status oid ''processing'') c) (\<lambda>c.
                   andThen (query F (insert_status_history oid ''processing''
                              ''Payment received and order is being processed'') c) (\<lambda>c.
                     andThen (commit F c) (\<lambda>c.
                       Inr (Sent 201 (PaymentProcessed txid), c)))))))"

definition processPayment_body ::
  "fault \<Rightarrow> nat \<Rightarrow> nat \<Rightarrow> string \<Rightarrow> string option \<Rightarrow> string \<Rightarrow> conn
     \<Rightarrow> conn + (response \<times> conn)" where
  "processPayment_body F uid oid method details txid c0 =
     andThen (beginTransaction F c0) (processPayment_steps F uid oid method details txid)"

definition processPayment ::
  "fault \<Rightarrow> db \<Rightarrow> nat \<Rightarrow> nat \<Rightarrow> string \<Rightarrow> string option \<Rightarrow> string \<Rightarrow> response \<times> db" where
  "processPayment F d uid oid method details txid =
     finish (processPayment_body F uid oid method details txid (getConnection d))"

text \<open>\<^verbatim>\<open>processRefund\<close>: \<open>tid\<close> is \<^verbatim>\<open>req.params.id\<close>, the primary key of the transaction;
  \<open>amount\<close> and \<open>reason\<close> are the texts the template literal prints, \<open>None\<close> when
  the field is absent.\<close>

definition refund_notes :: "string option \<Rightarrow> string option \<Rightarrow> string" where
  "refund_notes amount reason =
     ''Refund processed: ''
     @ (case reason of None \<Rightarrow> ''No reason provided''
        | Some r \<Rightarrow> if r = [] then ''No reason provided'' else r)
     @ ''. Amount: ''
     @ (case amount of None \<Rightarrow> ''Full amount''
        | Some a \<Rightarrow> if a = [] then ''Full amount'' else a)"

definition processRefund_steps ::
  "fault \<Rightarrow> nat \<Rightarrow> string option \<Rightarrow> string option \<Rightarrow> conn \<Rightarrow> conn + (response \<times> conn)" where
  "processRefund_steps F tid amount reason c0 =
       andThen (query F Some c0) (\<lambda>c.
         case filter (\<lambda>t. t_id t = tid) (transactions (live c)) of
           [] \<Rightarrow> Inr (Rejected 404 ''Transaction not found'', c)
         | txn # _ \<Rightarrow>
             if t_status txn = ''refunded''
             then Inr (Rejected 400 ''This transaction has already been refunded'', c)
             else andThen (query F (set_transaction_status tid ''refunded'') c) (\<lambda>c.
               andThen (query F (set_order_status (t_order_id txn) ''refunded'') c) (\<lambda>c.
                 andThen (query F (insert_status_history (t_order_id txn) ''refunded''
                            (refund_notes amount reason)) c) (\<lambda>c.
                   andThen (items_of_order F (t_order_id txn) c) (\<lambda>(its, c).
                     andThen (return_stock F its c) (\<lambda>c.
                       andThen (commit F c) (\<lambda>c.
                         Inr (Sent 200 (Message ''Refund processed successfully''), c))))))))"

definition processRefund_body ::
  "fault \<Rightarrow> nat \<Rightarrow> string option \<Rightarrow> string option \<Rightarrow> conn \<Rightarrow> conn + (response \<times> conn)" where
  "processRefund_body F tid amount reason c0 =
     andThen (beginTransaction F c0) (processRefund_steps F tid amount reason)"

definition processRefund ::
  "fault \<Rightarrow> db \<Rightarrow> nat \<Rightarrow> string option \<Rightarrow> string option \<Rightarrow> response \<times> db" where
  "processRefund F d tid amount reason =
     finish (processRefund_body F tid amount reason (getConnection d))"

section \<open>The cart controller\<close>

text \<open>\<^verbatim>\<open>getCart\<close> finds or creates the cart of the user and joins its items with their
  products. The response also carries a total and an item count computed from the
  joined rows; they are not part of the payload here.\<close>

definition find_or_create_cart :: "fault \<Rightarrow> nat \<Rightarrow> conn \<Rightarrow> conn + (nat \<times> conn)" where
  "find_or_create_cart F uid c0 =
     andThen (query F Some c0) (\<lambda>c.
       case filter (\<lambda>r. c_user_id r = uid) (carts (live c)) of
         cart # _ \<Rightarrow> Inr (c_id cart, c)
       | [] \<Rightarrow>
           let cid = next_cart_id (live c) in
           andThen (query F (insert_cart uid) c) (\<lambda>c. Inr (cid, c)))"

definition cart_view :: "nat \<Rightarrow> db \<Rightarrow> (cart_item_row \<times> product_row) list" where
  "cart_view cid d =
     concat (map (\<lambda>ci. map (\<lambda>p. (ci, p)) (filter (\<lambda>p. p_id p = ci_product_id ci) (products d)))
       (filter (\<lambda>ci. ci_cart_id ci = cid) (cart_items d)))"

definition getCart_steps :: "fault \<Rightarrow> nat \<Rightarrow> conn \<Rightarrow> conn + (response \<times> conn)" where
  "getCart_steps F uid c0 =
       andThen (find_or_create_cart F uid c0) (\<lambda>(cid, c).
         andThen (query F Some c) (\<lambda>c.
           let rows = cart_view cid (live c) in
           andThen (commit F c) (\<lambda>c.
             Inr (Sent 200 (CartContents cid uid rows), c))))"

definition getCart_body :: "fault \<Rightarrow> nat \<Rightarrow> conn \<Rightarrow> conn + (response \<times> conn)" where
  "getCart_body F uid c0 = andThen (beginTransaction F c0) (getCart_steps F uid)"

definition getCart :: "fault \<Rightarrow> db \<Rightarrow> nat \<Rightarrow> response \<times> db" where
  "getCart F d uid = finish (getCart_body F uid (getConnection d))"

text \<open>\<^verbatim>\<open>addToCart\<close>: \<open>productId\<close> is \<open>0\<close> when \<^verbatim>\<open>!productId\<close> holds; \<open>quantity\<close> has
  taken its default \<open>1\<close> already. \<open>AddedToCart\<close> is the path that reaches
  \<^verbatim>\<open>return getCart(req, res, next)\<close>.\<close>

datatype add_outcome = Answered response | AddedToCart

definition addToCart_steps ::
  "fault \<Rightarrow> nat \<Rightarrow> nat \<Rightarrow> int \<Rightarrow> conn \<Rightarrow> conn + (add_outcome \<times> conn)" where
  "addToCart_steps F uid productId quantity c =
      (if productId = 0 \<or> quantity < 1
       then Inr (Answered (Rejected 400 ''Product ID and valid quantity are required''), c)
       else andThen (query F Some c) (\<lambda>c.
         case filter (\<lambda>p. p_id p = productId) (products (live c)) of
           [] \<Rightarrow> Inr (Answered (Rejected 404 ''Product not found''), c)
         | product # _ \<Rightarrow>
             if p_stock product < quantity
             then Inr (Answered (Rejected 400
                    (''Only '' @ show_int (p_stock product) @ '' items available in stock'')), c)
             else andThen (find_or_create_cart F uid c) (\<lambda>(cid, c).
               andThen (query F Some c) (\<lambda>c.
                 case filter (\<lambda>r. ci_cart_id r = cid \<and> ci_product_id r = productId)
                        (cart_items (live c)) of
                   existing # _ \<Rightarrow>
                     let newQuantity = ci_quantity existing + quantity in
                     if p_stock product < newQuantity
                     then Inr (Answered (Rejected 400
                            (''Only '' @ show_int (p_stock product - ci_quantity existing)
                             @ '' more items available in stock'')), c)
                     else andThen (query F (set_cart_item_quantity (ci_id existing) newQuantity) c)
                            (\<lambda>c. andThen (commit F c) (\<lambda>c. Inr (AddedToCart, c)))
                 | [] \<Rightarrow>
                     andThen (query F (insert_cart_item cid productId quantity) c)
                       (\<lambda>c. andThen (commit F c) (\<lambda>c. Inr (AddedToCart, c)))))))"

definition addToCart_body ::
  "fault \<Rightarrow> nat \<Rightarrow> nat \<Rightarrow> int \<Rightarrow> conn \<Rightarrow> conn + (add_outcome \<times> conn)" where
  "addToCart_body F uid productId quantity c0 =
     andThen (beginTransaction F c0) (addToCart_steps F uid productId quantity)"

text \<open>\<open>F\<close> is the fault plan of the connection of \<^verbatim>\<open>addToCart\<close>, \<open>G\<close> that of the
  connection \<^verbatim>\<open>getCart\<close> opens afterwards.\<close>

definition addToCart :: "fault \<Rightarrow> fault \<Rightarrow> db \<Rightarrow> nat \<Rightarrow> nat \<Rightarrow> int \<Rightarrow> response \<times> db" where
  "addToCart F G d uid productId quantity =
     (case addToCart_body F uid productId quantity (getConnection d) of
        Inl c \<Rightarrow> (Errored, release (rollback c))
      | Inr (Answered resp, c) \<Rightarrow> (resp, release c)
      | Inr (AddedToCart, c) \<Rightarrow> getCart G (release c) uid)"

section \<open>Vocabulary of the properties\<close>

text \<open>The lines of a request whose product is not in the catalogue.\<close>

definition missing_products :: "db \<Rightarrow> line list \<Rightarrow> line list" where
  "missing_products d ls = filter (\<lambda>i. filter (\<lambda>p. p_id p = l_id i) (products d) = []) ls"

text \<open>The rows a checkout that runs to its commit has written.\<close>

definition item_row :: "nat \<Rightarrow> line \<Rightarrow> order_item_row" where
  "item_row oid i = \<lparr>oi_order_id = oid, oi_product_id = l_id i, oi_quantity = l_quantity i,
     oi_price = round_cents (l_price i)\<rparr>"

definition new_order_row :: "db \<Rightarrow> order_request \<Rightarrow> order_row" where
  "new_order_row d req =
     \<lparr>o_id = next_order_id d, o_user_id = userId req, o_order_number = orderNumber req,
       o_total_amount = round_cents (totalAmount (items req)), o_status = ''pending'',
       o_shipping_name = s_name (shippingInfo req), o_shipping_email = s_email (shippingInfo req),
       o_shipping_address = s_address (shippingInfo req),
       o_shipping_city = s_city (shippingInfo req), o_shipping_zip = s_zip (shippingInfo req)\<rparr>"

definition new_transaction_row :: "db \<Rightarrow> order_request \<Rightarrow> transaction_row" where
  "new_transaction_row d req =
     \<lparr>t_id = next_transaction_id d, t_order_id = next_order_id d,
       t_transaction_id = transactionId req,
       t_amount = round_cents (totalAmount (items req)), t_payment_method = paymentMethod req,
       t_status = ''completed'', t_payment_details = Method_only (paymentMethod req)\<rparr>"

definition cleared_cart_items :: "nat \<Rightarrow> db \<Rightarrow> cart_item_row list" where
  "cleared_cart_items uid d =
     (case filter (\<lambda>r. c_user_id r = uid) (carts d) of
        [] \<Rightarrow> cart_items d
      | cart # _ \<Rightarrow> filter (\<lambda>r. ci_cart_id r \<noteq> c_id cart) (cart_items d))"

definition placed_order :: "db \<Rightarrow> order_request \<Rightarrow> db" where
  "placed_order d req =
     d\<lparr>orders := orders d @ [new_order_row d req],
       order_items := order_items d @ map (item_row (next_order_id d)) (items req),
       products := fold (\<lambda>i. shift_stock (l_id i) (- l_quantity i)) (items req) (products d),
       transactions := transactions d @ [new_transaction_row d req],
       order_status_history := order_status_history d @
         [\<lparr>h_order_id = next_order_id d, h_status = ''pending'',
           h_notes = ''Order created and payment received''\<rparr>],
       cart_items := cleared_cart_items (userId req) d,
       next_order_id := Suc (next_order_id d),
       next_transaction_id := Suc (next_transaction_id d)\<rparr>"

text \<open>The rows a payment that runs to its commit has written.\<close>

definition mark_order :: "nat \<Rightarrow> string \<Rightarrow> order_row list \<Rightarrow> order_row list" where
  "mark_order oid st rows = map (\<lambda>r. if o_id r = oid then r\<lparr>o_status := st\<rparr> else r) rows"

definition paid_order ::
  "db \<Rightarrow> nat \<Rightarrow> order_row \<Rightarrow> string \<Rightarrow> string option \<Rightarrow> string \<Rightarrow> db" where
  "paid_order d oid order method details txid =
     d\<lparr>transactions := transactions d @
         [\<lparr>t_id = next_transaction_id d, t_order_id = oid, t_transaction_id = txid,
           t_amount = round_cents (o_total_amount order), t_payment_method = method,
           t_status = ''completed'',
           t_payment_details = (case details of None \<Rightarrow> Method_only method
                                | Some p \<Rightarrow> Supplied p)\<rparr>],
       orders := mark_order oid ''processing'' (orders d),
       order_status_history := order_status_history d @
         [\<lparr>h_order_id = oid, h_status = ''processing'',
           h_notes = ''Payment received and order is being processed''\<rparr>],
       next_transaction_id := Suc (next_transaction_id d)\<rparr>"

text \<open>Two stores with the same rows; the counters of the second may be ahead.\<close>

definition counters_le :: "db \<Rightarrow> db \<Rightarrow> bool" where
  "counters_le d d' \<longleftrightarrow>
     next_order_id d \<le> next_order_id d' \<and> next_transaction_id d \<le> next_transaction_id d'
     \<and> next_cart_id d \<le> next_cart_id d' \<and> next_cart_item_id d \<le> next_cart_item_id d'"

definition same_rows :: "db \<Rightarrow> db \<Rightarrow> bool" where
  "same_rows d d' \<longleftrightarrow>
     counters_le d d' \<and>
     d' = d\<lparr>next_order_id := next_order_id d', next_transaction_id := next_transaction_id d',
            next_cart_id := next_cart_id d', next_cart_item_id := next_cart_item_id d'\<rparr>"

text \<open>What \<^verbatim>\<open>AUTO_INCREMENT\<close> and the foreign keys on \<^verbatim>\<open>order_id\<close> give: no row carries
  an order id that the counter has not handed out yet.\<close>

definition wf_db :: "db \<Rightarrow> bool" where
  "wf_db d \<longleftrightarrow>
     list_all (\<lambda>r. o_id r < next_order_id d) (orders d)
     \<and> list_all (\<lambda>i. oi_order_id i < next_order_id d) (order_items d)
     \<and> list_all (\<lambda>t. t_order_id t < next_order_id d) (transactions d)
     \<and> list_all (\<lambda>h. h_order_id h < next_order_id d) (order_status_history d)"

text \<open>No two transaction rows reference the same order.\<close>

definition one_payment_per_order :: "db \<Rightarrow> bool" where
  "one_payment_per_order d \<longleftrightarrow> distinct (map t_order_id (transactions d))"

definition payments_of :: "db \<Rightarrow> nat \<Rightarrow> transaction_row list" where
  "payments_of d oid = filter (\<lambda>t. t_order_id t = oid) (transactions d)"

text \<open>The four core operations, each with its fault plan, and a sequence of them run
  one after the other on the store.\<close>

datatype operation =
    Checkout fault order_request
  | StatusChange fault nat string "string option"
  | Payment fault nat nat string "string option" string
  | Refund fault nat "string option" "string option"

fun perform :: "operation \<Rightarrow> db \<Rightarrow> db" where
  "perform (Checkout F req) d = snd (createOrder F d req)"
| "perform (StatusChange F oid status notes) d = snd (updateOrderStatus F d oid status notes)"
| "perform (Payment F uid oid method details txid) d =
     snd (processPayment F d uid oid method details txid)"
| "perform (Refund F tid amount reason) d = snd (processRefund F d tid amount reason)"

text \<open>Exits of a computation on a connection: \<open>Q\<close> relates the saved and the live store.\<close>

definition holds :: "(db option \<Rightarrow> db \<Rightarrow> bool) \<Rightarrow> conn \<Rightarrow> bool" where
  "holds Q c \<longleftrightarrow> Q (saved c) (live c)"

definition throws_in :: "(db option \<Rightarrow> db \<Rightarrow> bool) \<Rightarrow> conn + 'a \<Rightarrow> bool" where
  "throws_in Q m \<longleftrightarrow> (\<forall>c. m = Inl c \<longrightarrow> holds Q c)"

definition stays_in :: "(db option \<Rightarrow> db \<Rightarrow> bool) \<Rightarrow> conn + conn \<Rightarrow> bool" where
  "stays_in Q m \<longleftrightarrow> (\<forall>c. m = Inl c \<longrightarrow> holds Q c) \<and> (\<forall>c. m = Inr c \<longrightarrow> holds Q c)"

definition stays_in2 :: "(db option \<Rightarrow> db \<Rightarrow> bool) \<Rightarrow> conn + ('a \<times> conn) \<Rightarrow> bool" where
  "stays_in2 Q m \<longleftrightarrow>
     (\<forall>c. m = Inl c \<longrightarrow> holds Q c) \<and> (\<forall>x c. m = Inr (x, c) \<longrightarrow> holds Q c)"

text \<open>Inside a transaction begun on \<open>d\<close>.\<close>

definition in_tx :: "db \<Rightarrow> db option \<Rightarrow> db \<Rightarrow> bool" where
  "in_tx d sv lv \<longleftrightarrow> sv = Some d \<and> counters_le d lv"

text \<open>A response that rejects the request with the given status.\<close>

definition rejected_with :: "nat \<Rightarrow> response \<Rightarrow> bool" where
  "rejected_with s r = (case r of Rejected s' m \<Rightarrow> s' = s | Sent s' p \<Rightarrow> False | Errored \<Rightarrow> False)"



text \<open>An amount with no fraction of a cent.\<close>

definition whole_cents :: "rat \<Rightarrow> bool" where
  "whole_cents x \<longleftrightarrow> of_int \<lfloor>x * 100\<rfloor> = x * 100"




text \<open>Inside a transaction begun on \<open>d\<close> that has taken no counter value.\<close>

definition in_tx_no_insert :: "db \<Rightarrow> db option \<Rightarrow> db \<Rightarrow> bool" where
  "in_tx_no_insert d sv lv \<longleftrightarrow> sv = Some d \<and> counters_le d lv \<and> counters_le lv d"

text \<open>Outside a transaction, on a store that keeps the transactions of \<open>d\<close> and holds
  order \<open>oid\<close>.\<close>

definition status_frame :: "db \<Rightarrow> nat \<Rightarrow> db option \<Rightarrow> db \<Rightarrow> bool" where
  "status_frame d oid sv lv \<longleftrightarrow>
     sv = None \<and> wf_db lv \<and> transactions lv = transactions d
     \<and> oid \<in> set (map o_id (orders lv))"

subsection \<open>Example data\<close>

definition example_db :: db where
  "example_db =
     \<lparr>products = [\<lparr>p_id = 1, p_price = 10, p_stock = 5\<rparr>, \<lparr>p_id = 2, p_price = 5 / 2, p_stock = 1\<rparr>],
      orders = [\<lparr>o_id = 1, o_user_id = 7, o_order_number = ''ORD-1'', o_total_amount = 45 / 2,
                 o_status = ''pending'', o_shipping_name = ''Ada'', o_shipping_email = ''ada@example.com'',
                 o_shipping_address = ''1 Main St'', o_shipping_city = ''Pune'', o_shipping_zip = ''411001''\<rparr>],
      order_items = [\<lparr>oi_order_id = 1, oi_product_id = 1, oi_quantity = 2, oi_price = 10\<rparr>,
                     \<lparr>oi_order_id = 1, oi_product_id = 2, oi_quantity = 1, oi_price = 5 / 2\<rparr>],
      transactions = [\<lparr>t_id = 1, t_order_id = 1, t_transaction_id = ''TXN-1'', t_amount = 45 / 2,
                       t_payment_method = ''card'', t_status = ''completed'',
                       t_payment_details = Method_only ''card''\<rparr>],
      order_status_history = [\<lparr>h_order_id = 1, h_status = ''pending'',
                                h_notes = ''Order created and payment received''\<rparr>],
      carts = [\<lparr>c_id = 1, c_user_id = 7\<rparr>],
      cart_items = [\<lparr>ci_id = 1, ci_cart_id = 1, ci_product_id = 2, ci_quantity = 1\<rparr>],
      next_order_id = 2, next_transaction_id = 2, next_cart_id = 2, next_cart_item_id = 2\<rparr>"

definition example_shipping :: shipping_info where
  "example_shipping = \<lparr>s_name = ''Ada'', s_email = ''ada@example.com'', s_address = ''1 Main St'',
     s_city = ''Pune'', s_zip = ''411001''\<rparr>"

definition example_request :: "line list \<Rightarrow> order_request" where
  "example_request ls = \<lparr>userId = 7, items = ls, shippingInfo = example_shipping,
     paymentMethod = ''card'', orderNumber = ''ORD-2'', transactionId = ''TXN-2''\<rparr>"

definition refunded_db :: db where
  "refunded_db = example_db\<lparr>transactions :=
     [\<lparr>t_id = 1, t_order_id = 1, t_transaction_id = ''TXN-1'', t_amount = 45 / 2,
       t_payment_method = ''card'', t_status = ''refunded'',
       t_payment_details = Method_only ''card''\<rparr>]\<rparr>"

definition example_lines :: "line list" where
  "example_lines = [\<lparr>l_id = 1, l_quantity = 2, l_price = 10\<rparr>,
                    \<lparr>l_id = 2, l_quantity = 1, l_price = 5 / 2\<rparr>,
                    \<lparr>l_id = 1, l_quantity = 1, l_price = 10\<rparr>]"


definition example_ops :: "operation list" where
  "example_ops =
     [Checkout no_fault (example_request example_lines),
      Payment no_fault 7 2 ''card'' None ''TXN-3'',
      StatusChange no_fault 2 ''shipped'' None,
      Refund no_fault 2 None None]"

section \<open>Statements and connections\<close>

lemma query_Inl_D: "query F stmt c = Inl c' \<Longrightarrow> saved c' = saved c \<and> live c' = live c"
  by (auto simp: query_def Let_def split: if_splits option.splits)

lemma query_Inr_D:
  "query F stmt c = Inr c' \<Longrightarrow> saved c' = saved c \<and> stmt (live c) = Some (live c')"
  by (auto simp: query_def Let_def split: if_splits option.splits)

lemma commit_Inr_D: "commit F c = Inr c' \<Longrightarrow> saved c' = None \<and> live c' = live c"
  by (auto simp: commit_def Let_def split: if_splits)

lemma begin_Inl_D: "beginTransaction F c = Inl c' \<Longrightarrow> saved c' = saved c \<and> live c' = live c"
  by (auto simp: beginTransaction_def Let_def split: if_splits)

lemma begin_Inr_D:
  "beginTransaction F c = Inr c' \<Longrightarrow> saved c' = Some (live c) \<and> live c' = live c"
  by (auto simp: beginTransaction_def Let_def split: if_splits)

lemma andThen_Inr_E:
  assumes "andThen m f = Inr b"
  obtains a where "m = Inr a" "f a = Inr b"
  using assms by (auto simp: andThen_def split: sum.splits)

lemma insert_order_D:
  "insert_order uid onum amount ship d = Some d' \<Longrightarrow>
     d' = d\<lparr>orders := orders d @
            [\<lparr>o_id = next_order_id d, o_user_id = uid, o_order_number = onum,
              o_total_amount = round_cents amount, o_status = ''pending'',
              o_shipping_name = s_name ship, o_shipping_email = s_email ship,
              o_shipping_address = s_address ship, o_shipping_city = s_city ship,
              o_shipping_zip = s_zip ship\<rparr>],
          next_order_id := Suc (next_order_id d)\<rparr>"
  by (auto simp: insert_order_def decimal_col_def Let_def split: option.splits if_splits)

lemma insert_order_item_D:
  "insert_order_item oid pid q pr d = Some d' \<Longrightarrow>
     d' = d\<lparr>order_items := order_items d @
            [\<lparr>oi_order_id = oid, oi_product_id = pid, oi_quantity = q,
              oi_price = round_cents pr\<rparr>]\<rparr>"
  by (auto simp: insert_order_item_def int_col_def decimal_col_def Let_def
      split: option.splits if_splits)

lemma add_stock_D:
  "add_stock pid delta d = Some d' \<Longrightarrow> d' = d\<lparr>products := shift_stock pid delta (products d)\<rparr>"
  by (auto simp: add_stock_def split: if_splits)

lemma insert_transaction_D:
  "insert_transaction oid txid amount method status details d = Some d' \<Longrightarrow>
     status \<in> set transaction_status_enum \<and>
     d' = d\<lparr>transactions := transactions d @
            [\<lparr>t_id = next_transaction_id d, t_order_id = oid, t_transaction_id = txid,
              t_amount = round_cents amount, t_payment_method = method, t_status = status,
              t_payment_details = details\<rparr>],
          next_transaction_id := Suc (next_transaction_id d)\<rparr>"
  by (auto simp: insert_transaction_def decimal_col_def enum_col_def Let_def
      split: option.splits if_splits)

lemma insert_status_history_D:
  "insert_status_history oid status notes d = Some d' \<Longrightarrow>
     status \<in> set order_status_enum \<and>
     d' = d\<lparr>order_status_history := order_status_history d @
            [\<lparr>h_order_id = oid, h_status = status, h_notes = notes\<rparr>]\<rparr>"
  by (auto simp: insert_status_history_def enum_col_def varchar_col_def
      split: option.splits if_splits)

lemma set_order_status_valid:
  "st \<in> set order_status_enum \<Longrightarrow>
     set_order_status oid st d = Some (d\<lparr>orders := mark_order oid st (orders d)\<rparr>)"
  by (simp add: set_order_status_def enum_col_def mark_order_def)

lemma set_order_status_invalid:
  "st \<notin> set order_status_enum \<Longrightarrow> set_order_status oid st d = Some d' \<Longrightarrow>
     d' = d \<and> filter (\<lambda>r. o_id r = oid) (orders d) = []"
  by (auto simp: set_order_status_def enum_col_def split: if_splits)

lemma counters_le_refl [simp]: "counters_le d d"
  by (simp add: counters_le_def)

lemma counters_le_trans: "counters_le a b \<Longrightarrow> counters_le b c \<Longrightarrow> counters_le a c"
  by (auto simp: counters_le_def)

lemma same_rows_refl [simp]: "same_rows d d"
  by (simp add: same_rows_def)

lemma statement_counters:
  "insert_order uid onum amount ship d = Some d' \<Longrightarrow> counters_le d d'"
  "insert_order_item oid pid q pr d = Some d' \<Longrightarrow> counters_le d d'"
  "add_stock pid delta d = Some d' \<Longrightarrow> counters_le d d'"
  "insert_transaction oid txid amount method status details d = Some d' \<Longrightarrow> counters_le d d'"
  "insert_status_history oid status notes d = Some d' \<Longrightarrow> counters_le d d'"
  "set_order_status oid status d = Some d' \<Longrightarrow> counters_le d d'"
  "set_transaction_status tid status d = Some d' \<Longrightarrow> counters_le d d'"
  "delete_cart_items cid d = Some d' \<Longrightarrow> counters_le d d'"
  "insert_cart uid d = Some d' \<Longrightarrow> counters_le d d'"
  "insert_cart_item cid pid q d = Some d' \<Longrightarrow> counters_le d d'"
  "set_cart_item_quantity iid q d = Some d' \<Longrightarrow> counters_le d d'"
  by (auto simp: counters_le_def insert_order_def insert_order_item_def add_stock_def
      insert_transaction_def insert_status_history_def set_order_status_def
      set_transaction_status_def delete_cart_items_def insert_cart_def insert_cart_item_def
      set_cart_item_quantity_def Let_def split: option.splits if_splits)

subsection \<open>Exits of a sequence of statements\<close>

lemma query_stays:
  "holds Q c \<Longrightarrow> (\<And>d'. stmt (live c) = Some d' \<Longrightarrow> Q (saved c) d')
     \<Longrightarrow> stays_in Q (query F stmt c)"
  by (auto simp: stays_in_def holds_def query_def Let_def split: option.splits)

lemma select_stays: "holds Q c \<Longrightarrow> stays_in Q (query F Some c)"
  by (auto simp: stays_in_def holds_def query_def Let_def)

lemma commit_stays: "holds Q c \<Longrightarrow> Q None (live c) \<Longrightarrow> stays_in Q (commit F c)"
  by (auto simp: stays_in_def holds_def commit_def Let_def)

lemma andThen_stays:
  "stays_in Q m \<Longrightarrow> (\<And>c. holds Q c \<Longrightarrow> m = Inr c \<Longrightarrow> stays_in Q (f c))
     \<Longrightarrow> stays_in Q (andThen m f)"
  by (auto simp: stays_in_def andThen_def split: sum.splits)

lemma andThen_stays2:
  "stays_in Q m \<Longrightarrow> (\<And>c. holds Q c \<Longrightarrow> m = Inr c \<Longrightarrow> stays_in2 Q (f c))
     \<Longrightarrow> stays_in2 Q (andThen m f)"
  by (auto simp: stays_in_def stays_in2_def andThen_def split: sum.splits)

lemma andThen2_stays:
  "stays_in2 Q m \<Longrightarrow> (\<And>x c. holds Q c \<Longrightarrow> m = Inr (x, c) \<Longrightarrow> stays_in Q (f (x, c)))
     \<Longrightarrow> stays_in Q (andThen m f)"
  by (auto simp: stays_in_def stays_in2_def andThen_def split: sum.splits)

lemma andThen2_stays2:
  "stays_in2 Q m \<Longrightarrow> (\<And>x c. holds Q c \<Longrightarrow> m = Inr (x, c) \<Longrightarrow> stays_in2 Q (f (x, c)))
     \<Longrightarrow> stays_in2 Q (andThen m f)"
  by (auto simp: stays_in2_def andThen_def split: sum.splits)

lemma andThen_throws:
  "stays_in Q m \<Longrightarrow> (\<And>c. holds Q c \<Longrightarrow> m = Inr c \<Longrightarrow> throws_in Q (f c))
     \<Longrightarrow> throws_in Q (andThen m f)"
  by (auto simp: stays_in_def throws_in_def andThen_def split: sum.splits)

lemma andThen2_throws:
  "stays_in2 Q m \<Longrightarrow> (\<And>x c. holds Q c \<Longrightarrow> m = Inr (x, c) \<Longrightarrow> throws_in Q (f (x, c)))
     \<Longrightarrow> throws_in Q (andThen m f)"
  by (auto simp: stays_in2_def throws_in_def andThen_def split: sum.splits)

lemma commit_throws:
  "holds Q c \<Longrightarrow> (\<And>c'. throws_in Q (f c')) \<Longrightarrow> throws_in Q (andThen (commit F c) f)"
  by (auto simp: throws_in_def holds_def commit_def andThen_def Let_def split: sum.splits)

lemma Inr_throws [simp]: "throws_in Q (Inr x)"
  by (simp add: throws_in_def)

lemma Inl_throws: "holds Q c \<Longrightarrow> throws_in Q (Inl c)"
  by (simp add: throws_in_def)

lemma Inr_stays: "holds Q c \<Longrightarrow> stays_in Q (Inr c)"
  by (simp add: stays_in_def)

lemma Inr_stays2: "holds Q c \<Longrightarrow> stays_in2 Q (Inr (x, c))"
  by (simp add: stays_in2_def)

lemma in_tx_step: "in_tx d sv lv \<Longrightarrow> counters_le lv lv' \<Longrightarrow> in_tx d sv lv'"
  by (auto simp: in_tx_def intro: counters_le_trans)

lemma query_stays_tx:
  "holds (in_tx d) c \<Longrightarrow> (\<And>a b. stmt a = Some b \<Longrightarrow> counters_le a b)
     \<Longrightarrow> stays_in (in_tx d) (query F stmt c)"
  by (rule query_stays) (auto simp: holds_def intro: in_tx_step)

lemmas exit_rules =
  andThen_throws andThen2_throws commit_throws andThen_stays andThen2_stays andThen_stays2
  andThen2_stays2 select_stays Inr_stays Inr_stays2 Inl_throws

text \<open>A transaction that throws is rolled back to the rows it began on.\<close>

lemma thrown_transaction:
  assumes "andThen (beginTransaction F (getConnection d)) steps = Inl c"
    and "\<And>c1. holds (in_tx d) c1 \<Longrightarrow> throws_in (in_tx d) (steps c1)"
  shows "same_rows d (release (rollback c))"
proof (cases "beginTransaction F (getConnection d)")
  case (Inl c')
  with assms(1) have "c = c'" by (simp add: andThen_def)
  with begin_Inl_D[OF Inl] show ?thesis
    by (simp add: getConnection_def rollback_def release_def)
next
  case (Inr c1)
  from begin_Inr_D[OF Inr] have "holds (in_tx d) c1"
    by (simp add: holds_def in_tx_def getConnection_def)
  from assms(2)[OF this] assms(1) Inr have "holds (in_tx d) c"
    by (simp add: throws_in_def andThen_def)
  then show ?thesis
    by (auto simp: holds_def in_tx_def rollback_def release_def same_rows_def counters_le_def)
qed

lemmas run_defs =
  createOrder_def createOrder_body_def createOrder_steps_def
  updateOrderStatus_def updateOrderStatus_body_def updateOrderStatus_writes_def
  items_of_order_def status_notes_def
  processPayment_def processPayment_body_def processPayment_steps_def
  processRefund_def processRefund_body_def processRefund_steps_def refund_notes_def
  addToCart_def addToCart_body_def addToCart_steps_def find_or_create_cart_def
  getCart_def getCart_body_def getCart_steps_def cart_view_def
  finish_def getConnection_def query_def beginTransaction_def commit_def rollback_def
  release_def andThen_def no_fault_def clear_cart_of_def totalAmount_def
  insert_order_def insert_order_item_def add_stock_def shift_stock_def insert_transaction_def
  insert_status_history_def set_order_status_def set_transaction_status_def
  delete_cart_items_def insert_cart_def insert_cart_item_def set_cart_item_quantity_def
  enum_col_def int_col_def varchar_col_def decimal_col_def round_cents_def shipping_fits_def
  order_status_enum_def transaction_status_enum_def show_int_def Let_def
  example_db_def example_shipping_def example_request_def

subsection \<open>createOrder\<close>

lemma verify_products_Inl:
  "verify_products F ls c = Inl c' \<Longrightarrow> live c' = live c \<and> saved c' = saved c"
proof (induction ls arbitrary: c)
  case Nil
  then show ?case by simp
next
  case (Cons item rest)
  then show ?case
    by (auto split: sum.splits if_splits dest: query_Inl_D query_Inr_D)
qed

lemma verify_products_Inr:
  "verify_products F ls c = Inr (m, c') \<Longrightarrow>
     live c' = live c \<and> saved c' = saved c
     \<and> m = (case missing_products (live c) ls of [] \<Rightarrow> None | i # _ \<Rightarrow> Some (l_id i))"
proof (induction ls arbitrary: c)
  case Nil
  then show ?case by (simp add: missing_products_def)
next
  case (Cons item rest)
  from Cons.prems obtain c1 where q: "query F Some c = Inr c1"
    by (auto split: sum.splits)
  from query_Inr_D[OF q] have l: "live c1 = live c" "saved c1 = saved c" by auto
  show ?case
  proof (cases "filter (\<lambda>p. p_id p = l_id item) (products (live c1)) = []")
    case True
    with Cons.prems q l show ?thesis by (auto simp: missing_products_def)
  next
    case False
    with Cons.prems q have "verify_products F rest c1 = Inr (m, c')" by simp
    from Cons.IH[OF this] l False show ?thesis by (simp add: missing_products_def)
  qed
qed

lemma verify_products_no_fault: "\<exists>m c'. verify_products no_fault ls c = Inr (m, c')"
proof (induction ls arbitrary: c)
  case Nil
  then show ?case by simp
next
  case (Cons item rest)
  then show ?case
    by (auto simp: query_def no_fault_def Let_def)
qed

lemma verify_products_stays: "holds Q c \<Longrightarrow> stays_in2 Q (verify_products F ls c)"
  by (auto simp: stays_in2_def holds_def dest!: verify_products_Inl verify_products_Inr)

lemma add_order_items_stays:
  "holds (in_tx d) c \<Longrightarrow> stays_in (in_tx d) (add_order_items F oid ls c)"
proof (induction ls arbitrary: c)
  case Nil
  then show ?case by (simp add: Inr_stays)
next
  case (Cons i rest)
  then show ?case
    by (auto intro!: exit_rules query_stays_tx intro: statement_counters)
qed

lemma add_order_items_Inr:
  "add_order_items F oid ls c = Inr c' \<Longrightarrow>
     saved c' = saved c
     \<and> live c' = (live c)\<lparr>order_items := order_items (live c) @ map (item_row oid) ls,
          products := fold (\<lambda>i. shift_stock (l_id i) (- l_quantity i)) ls (products (live c))\<rparr>"
proof (induction ls arbitrary: c)
  case Nil
  then show ?case by simp
next
  case (Cons i rest)
  from Cons.prems obtain c1 c2 where
    s1: "query F (insert_order_item oid (l_id i) (l_quantity i) (l_price i)) c = Inr c1"
    and s2: "query F (add_stock (l_id i) (- l_quantity i)) c1 = Inr c2"
    and s3: "add_order_items F oid rest c2 = Inr c'"
    by (auto elim!: andThen_Inr_E)
  from query_Inr_D[OF s1] have c1: "saved c1 = saved c"
    "live c1 = (live c)\<lparr>order_items := order_items (live c) @ [item_row oid i]\<rparr>"
    by (auto dest!: insert_order_item_D simp: item_row_def)
  from query_Inr_D[OF s2] have c2: "saved c2 = saved c1"
    "live c2 = (live c1)\<lparr>products := shift_stock (l_id i) (- l_quantity i) (products (live c1))\<rparr>"
    by (auto dest!: add_stock_D)
  from Cons.IH[OF s3] c1 c2 show ?case by simp
qed

lemma clear_cart_of_stays:
  "holds (in_tx d) c \<Longrightarrow> stays_in (in_tx d) (clear_cart_of F uid c)"
  unfolding clear_cart_of_def
  by (auto split: list.splits intro!: exit_rules query_stays_tx intro: statement_counters)

lemma clear_cart_of_Inr:
  "clear_cart_of F uid c = Inr c' \<Longrightarrow>
     saved c' = saved c \<and> live c' = (live c)\<lparr>cart_items := cleared_cart_items uid (live c)\<rparr>"
  by (auto simp: clear_cart_of_def cleared_cart_items_def delete_cart_items_def
      elim!: andThen_Inr_E dest!: query_Inr_D split: list.splits)

lemma createOrder_steps_throw:
  "holds (in_tx d) c \<Longrightarrow> throws_in (in_tx d) (createOrder_steps F req c)"
  unfolding createOrder_steps_def
  apply (auto simp: Let_def split: option.splits
      intro!: exit_rules query_stays_tx verify_products_stays add_order_items_stays
        clear_cart_of_stays)
    apply (erule statement_counters)+
  done

lemma createOrder_steps_Inr:
  assumes "createOrder_steps F req c1 = Inr (r, c)"
  shows "(saved c = saved c1 \<and> live c = live c1 \<and> (\<exists>s m. r = Rejected s m))
       \<or> (saved c = None \<and> live c = placed_order (live c1) req
          \<and> r = Sent 201 (OrderCreated (next_order_id (live c1)) (orderNumber req)
                  (transactionId req)))"
proof (cases "userId req = 0")
  case True
  with assms show ?thesis
    by (auto simp: createOrder_steps_def)
next
  case False
  with assms obtain m c2 where v: "verify_products F (items req) c1 = Inr (m, c2)"
    by (auto simp: createOrder_steps_def andThen_def split: sum.splits)
  from verify_products_Inr[OF v]
  have c2: "saved c2 = saved c1" "live c2 = live c1" by auto
  show ?thesis
  proof (cases m)
    case (Some pid)
    with assms v False c2 show ?thesis
      by (auto simp: createOrder_steps_def andThen_def)
  next
    case None
    with assms v False obtain c3 c4 c5 c6 c7 c8 where
      s3: "query F (insert_order (userId req) (orderNumber req) (totalAmount (items req))
             (shippingInfo req)) c2 = Inr c3"
      and s4: "add_order_items F (next_order_id (live c2)) (items req) c3 = Inr c4"
      and s5: "query F (insert_transaction (next_order_id (live c2)) (transactionId req)
             (totalAmount (items req)) (paymentMethod req) ''completed''
             (Method_only (paymentMethod req))) c4 = Inr c5"
      and s6: "query F (insert_status_history (next_order_id (live c2)) ''pending''
             ''Order created and payment received'') c5 = Inr c6"
      and s7: "clear_cart_of F (userId req) c6 = Inr c7"
      and s8: "commit F c7 = Inr c8"
      and r: "r = Sent 201 (OrderCreated (next_order_id (live c2)) (orderNumber req)
                (transactionId req))" "c = c8"
      by (auto simp: createOrder_steps_def Let_def elim!: andThen_Inr_E split: if_splits)
    from query_Inr_D[OF s3] c2 have c3:
      "live c3 = (live c1)\<lparr>orders := orders (live c1) @ [new_order_row (live c1) req],
         next_order_id := Suc (next_order_id (live c1))\<rparr>"
      by (auto dest!: insert_order_D simp: new_order_row_def)
    from add_order_items_Inr[OF s4] have c4:
      "live c4 = (live c3)\<lparr>order_items := order_items (live c3) @
           map (item_row (next_order_id (live c2))) (items req),
         products := fold (\<lambda>i. shift_stock (l_id i) (- l_quantity i)) (items req)
           (products (live c3))\<rparr>"
      by auto
    from query_Inr_D[OF s5] have c5:
      "live c5 = (live c4)\<lparr>transactions := transactions (live c4) @
          [\<lparr>t_id = next_transaction_id (live c4), t_order_id = next_order_id (live c2),
            t_transaction_id = transactionId req,
            t_amount = round_cents (totalAmount (items req)),
            t_payment_method = paymentMethod req, t_status = ''completed'',
            t_payment_details = Method_only (paymentMethod req)\<rparr>],
        next_transaction_id := Suc (next_transaction_id (live c4))\<rparr>"
      by (auto dest!: insert_transaction_D)
    from query_Inr_D[OF s6] have c6:
      "live c6 = (live c5)\<lparr>order_status_history := order_status_history (live c5) @
          [\<lparr>h_order_id = next_order_id (live c2), h_status = ''pending'',
            h_notes = ''Order created and payment received''\<rparr>]\<rparr>"
      by (auto dest!: insert_status_history_D)
    from clear_cart_of_Inr[OF s7] have c7:
      "live c7 = (live c6)\<lparr>cart_items := cleared_cart_items (userId req) (live c6)\<rparr>"
      by auto
    from commit_Inr_D[OF s8] have c8: "saved c8 = None" "live c8 = live c7" by auto
    have cl: "cleared_cart_items (userId req) (live c6)
                = cleared_cart_items (userId req) (live c1)"
      by (simp add: cleared_cart_items_def c6 c5 c4 c3 split: list.split)
    have "live c8 = placed_order (live c1) req"
      unfolding c8 c7 cl unfolding c6 c5 c4 c3 c2
      by (simp add: placed_order_def new_transaction_row_def c2)
    with c8 r c2 show ?thesis by simp
  qed
qed

text \<open>The three ways a handler that runs in a transaction can end.\<close>

lemma transaction_cases:
  assumes body: "finish (andThen (beginTransaction F (getConnection d)) steps) = (r, d')"
    and throws: "\<And>c1. holds (in_tx d) c1 \<Longrightarrow> throws_in (in_tx d) (steps c1)"
  obtains (thrown) "r = Errored" "same_rows d d'"
    | (returned) c1 c where "saved c1 = Some d" "live c1 = d" "steps c1 = Inr (r, c)"
        "d' = release c"
proof (cases "andThen (beginTransaction F (getConnection d)) steps")
  case (Inl c)
  from thrown_transaction[OF Inl throws] body Inl show ?thesis
    by (auto simp: finish_def intro: thrown)
next
  case (Inr rc)
  then obtain c1 where b: "beginTransaction F (getConnection d) = Inr c1" and s: "steps c1 = Inr rc"
    by (auto elim!: andThen_Inr_E)
  obtain r' c where rc: "rc = (r', c)" by (cases rc)
  from begin_Inr_D[OF b] have "saved c1 = Some d" "live c1 = d"
    by (simp_all add: getConnection_def)
  with body Inr s rc show ?thesis
    by (auto simp: finish_def intro: returned)
qed

lemma createOrder_cases:
  assumes "createOrder F d req = (r, d')"
  obtains (thrown) "r = Errored" "same_rows d d'"
    | (rejected) s m where "r = Rejected s m" "d' = d"
    | (placed) "r = Sent 201 (OrderCreated (next_order_id d) (orderNumber req) (transactionId req))"
        "d' = placed_order d req"
proof -
  from assms have f:
    "finish (andThen (beginTransaction F (getConnection d)) (createOrder_steps F req)) = (r, d')"
    by (simp add: createOrder_def createOrder_body_def)
  show ?thesis
  proof (rule transaction_cases[OF f])
    fix c1 assume "holds (in_tx d) c1"
    then show "throws_in (in_tx d) (createOrder_steps F req c1)"
      by (rule createOrder_steps_throw)
  next
    assume "r = Errored" "same_rows d d'"
    then show thesis by (rule thrown)
  next
    fix c1 c
    assume *: "saved c1 = Some d" "live c1 = d" "createOrder_steps F req c1 = Inr (r, c)"
      "d' = release c"
    from createOrder_steps_Inr[OF *(3)] * show thesis
      by (auto simp: release_def intro: rejected placed)
  qed
qed

lemma rejected_with_simps [simp]:
  "rejected_with s (Rejected s' m) \<longleftrightarrow> s' = s"
  "\<not> rejected_with s (Sent s' p)"
  "\<not> rejected_with s Errored"
  by (simp_all add: rejected_with_def)


subsection \<open>updateOrderStatus\<close>



subsection \<open>Stock arithmetic\<close>








subsection \<open>Amounts in cents\<close>





lemma whole_cents_0 [simp]: "whole_cents 0"
  by (simp add: whole_cents_def)






subsection \<open>processPayment\<close>

lemma processPayment_steps_throw:
  "holds (in_tx d) c \<Longrightarrow> throws_in (in_tx d) (processPayment_steps F uid oid method details txid c)"
  unfolding processPayment_steps_def
  apply (auto simp: Let_def split: list.splits
      intro!: exit_rules query_stays_tx)
    apply (erule statement_counters)+
  done

lemma processPayment_steps_Inr:
  assumes "processPayment_steps F uid oid method details txid c1 = Inr (r, c)"
  shows "(saved c = saved c1 \<and> live c = live c1 \<and> (\<exists>s m. r = Rejected s m))
       \<or> (saved c = None \<and> r = Sent 201 (PaymentProcessed txid)
          \<and> filter (\<lambda>t. t_order_id t = oid) (transactions (live c1)) = []
          \<and> (\<exists>order rest.
                filter (\<lambda>r. o_id r = oid \<and> o_user_id r = uid) (orders (live c1)) = order # rest
                \<and> live c = paid_order (live c1) oid order method details txid))"
proof -
  from assms obtain c2 where q: "query F Some c1 = Inr c2"
    by (auto simp: processPayment_steps_def elim!: andThen_Inr_E)
  from query_Inr_D[OF q]
  have c2: "saved c2 = saved c1" "live c2 = live c1" by auto
  show ?thesis
  proof (cases "filter (\<lambda>r. o_id r = oid \<and> o_user_id r = uid) (orders (live c1))")
    case Nil
    with assms q c2 show ?thesis
      by (auto simp: processPayment_steps_def andThen_def)
  next
    case (Cons order rest)
    with assms q c2 obtain c3 where q3: "query F Some c2 = Inr c3"
      by (auto simp: processPayment_steps_def andThen_def split: sum.splits)
    from query_Inr_D[OF q3] c2 have c3: "saved c3 = saved c1" "live c3 = live c1" by auto
    show ?thesis
    proof (cases "filter (\<lambda>t. t_order_id t = oid) (transactions (live c1)) = []")
      case False
      with assms q q3 c2 c3 Cons show ?thesis
        by (auto simp: processPayment_steps_def andThen_def)
    next
      case True
      with assms q q3 c2 c3 Cons obtain c4 c5 c6 c7 where
        s4: "query F (insert_transaction oid txid (o_total_amount order) method ''completed''
               (case details of None \<Rightarrow> Method_only method | Some p \<Rightarrow> Supplied p)) c3 = Inr c4"
        and s5: "query F (set_order_status oid ''processing'') c4 = Inr c5"
        and s6: "query F (insert_status_history oid ''processing''
               ''Payment received and order is being processed'') c5 = Inr c6"
        and s7: "commit F c6 = Inr c7"
        and r: "r = Sent 201 (PaymentProcessed txid)" "c = c7"
        by (auto simp: processPayment_steps_def andThen_def split: sum.splits)
      from query_Inr_D[OF s4] c3 have c4:
        "live c4 = (live c1)\<lparr>transactions := transactions (live c1) @
            [\<lparr>t_id = next_transaction_id (live c1), t_order_id = oid, t_transaction_id = txid,
              t_amount = round_cents (o_total_amount order), t_payment_method = method,
              t_status = ''completed'',
              t_payment_details = (case details of None \<Rightarrow> Method_only method
                                   | Some p \<Rightarrow> Supplied p)\<rparr>],
           next_transaction_id := Suc (next_transaction_id (live c1))\<rparr>"
        by (auto dest!: insert_transaction_D)
      from query_Inr_D[OF s5] have c5:
        "live c5 = (live c4)\<lparr>orders := mark_order oid ''processing'' (orders (live c4))\<rparr>"
        by (auto simp: set_order_status_valid order_status_enum_def)
      from query_Inr_D[OF s6] have c6:
        "live c6 = (live c5)\<lparr>order_status_history := order_status_history (live c5) @
            [\<lparr>h_order_id = oid, h_status = ''processing'',
              h_notes = ''Payment received and order is being processed''\<rparr>]\<rparr>"
        by (auto dest!: insert_status_history_D)
      from commit_Inr_D[OF s7] have c7: "saved c7 = None" "live c7 = live c6" by auto
      have "live c7 = paid_order (live c1) oid order method details txid"
        unfolding c7 c6 c5 c4 by (simp add: paid_order_def)
      with c7 r True Cons show ?thesis by simp
    qed
  qed
qed

lemma processPayment_cases:
  assumes "processPayment F d uid oid method details txid = (r, d')"
  obtains (thrown) "r = Errored" "same_rows d d'"
    | (rejected) s m where "r = Rejected s m" "d' = d"
    | (paid) order rest where "r = Sent 201 (PaymentProcessed txid)"
        "filter (\<lambda>t. t_order_id t = oid) (transactions d) = []"
        "filter (\<lambda>r. o_id r = oid \<and> o_user_id r = uid) (orders d) = order # rest"
        "d' = paid_order d oid order method details txid"
proof -
  from assms have f:
    "finish (andThen (beginTransaction F (getConnection d))
       (processPayment_steps F uid oid method details txid)) = (r, d')"
    by (simp add: processPayment_def processPayment_body_def)
  show ?thesis
  proof (rule transaction_cases[OF f])
    fix c1 assume "holds (in_tx d) c1"
    then show "throws_in (in_tx d) (processPayment_steps F uid oid method details txid c1)"
      by (rule processPayment_steps_throw)
  next
    assume "r = Errored" "same_rows d d'"
    then show thesis by (rule thrown)
  next
    fix c1 c
    assume *: "saved c1 = Some d" "live c1 = d"
      "processPayment_steps F uid oid method details txid c1 = Inr (r, c)" "d' = release c"
    from processPayment_steps_Inr[OF *(3)] * show thesis
      by (auto simp: release_def intro: rejected paid)
  qed
qed

subsection \<open>processRefund\<close>

lemma statement_counters_back:
  "add_stock pid delta d = Some d' \<Longrightarrow> counters_le d' d"
  "insert_status_history oid status notes d = Some d' \<Longrightarrow> counters_le d' d"
  "set_order_status oid status d = Some d' \<Longrightarrow> counters_le d' d"
  "set_transaction_status tid status d = Some d' \<Longrightarrow> counters_le d' d"
  by (auto simp: counters_le_def add_stock_def insert_status_history_def set_order_status_def
      set_transaction_status_def split: option.splits if_splits)

lemma query_stays_no_insert:
  "holds (in_tx_no_insert d) c
     \<Longrightarrow> (\<And>a b. stmt a = Some b \<Longrightarrow> counters_le a b \<and> counters_le b a)
     \<Longrightarrow> stays_in (in_tx_no_insert d) (query F stmt c)"
  by (rule query_stays)
    (auto simp: holds_def in_tx_no_insert_def intro: counters_le_trans)

lemma return_stock_stays_no_insert:
  "holds (in_tx_no_insert d) c \<Longrightarrow> stays_in (in_tx_no_insert d) (return_stock F its c)"
proof (induction its arbitrary: c)
  case Nil
  then show ?case by (simp add: Inr_stays)
next
  case (Cons it rest)
  then show ?case
    by (auto intro!: exit_rules query_stays_no_insert
        intro: statement_counters statement_counters_back)
qed

lemma items_of_order_stays: "holds Q c \<Longrightarrow> stays_in2 Q (items_of_order F oid c)"
  unfolding items_of_order_def
  by (auto intro!: exit_rules)

lemma processRefund_steps_throw:
  "holds (in_tx_no_insert d) c \<Longrightarrow>
     throws_in (in_tx_no_insert d) (processRefund_steps F tid amount reason c)"
  unfolding processRefund_steps_def
  by (auto simp: Let_def split: list.splits
      intro!: exit_rules query_stays_no_insert items_of_order_stays return_stock_stays_no_insert
      intro: statement_counters statement_counters_back)

lemma refunded_not_an_order_status: "insert_status_history oid ''refunded'' notes d = None"
  by (simp add: insert_status_history_def enum_col_def order_status_enum_def)

lemma processRefund_steps_Inr:
  assumes "processRefund_steps F tid amount reason c1 = Inr (r, c)"
  shows "saved c = saved c1 \<and> live c = live c1 \<and> (\<exists>s m. r = Rejected s m)"
proof -
  from assms obtain c2 where q: "query F Some c1 = Inr c2"
    by (auto simp: processRefund_steps_def elim!: andThen_Inr_E)
  from query_Inr_D[OF q] have c2: "saved c2 = saved c1" "live c2 = live c1" by auto
  show ?thesis
  proof (cases "filter (\<lambda>t. t_id t = tid) (transactions (live c1))")
    case Nil
    with assms q c2 show ?thesis
      by (auto simp: processRefund_steps_def andThen_def)
  next
    case (Cons txn rest)
    show ?thesis
    proof (cases "t_status txn = ''refunded''")
      case True
      with assms q c2 Cons show ?thesis
        by (auto simp: processRefund_steps_def andThen_def)
    next
      case False
      with assms q c2 Cons obtain c3 c4 c5 where
        "query F (set_transaction_status tid ''refunded'') c2 = Inr c3"
        "query F (set_order_status (t_order_id txn) ''refunded'') c3 = Inr c4"
        "query F (insert_status_history (t_order_id txn) ''refunded''
           (refund_notes amount reason)) c4 = Inr c5"
        by (auto simp: processRefund_steps_def andThen_def split: sum.splits)
      from query_Inr_D[OF this(3)] show ?thesis
        by (simp add: refunded_not_an_order_status)
    qed
  qed
qed

lemma processRefund_changes_nothing:
  assumes "processRefund F d tid amount reason = (r, d')"
  shows "d' = d \<and> (r = Errored \<or> (\<exists>s m. r = Rejected s m))"
proof (cases "beginTransaction F (getConnection d)")
  case (Inl c)
  with begin_Inl_D[OF Inl] assms show ?thesis
    by (auto simp: processRefund_def processRefund_body_def finish_def andThen_def
        getConnection_def rollback_def release_def)
next
  case (Inr c1)
  from begin_Inr_D[OF Inr] have c1: "saved c1 = Some d" "live c1 = d"
    by (simp_all add: getConnection_def)
  then have h: "holds (in_tx_no_insert d) c1"
    by (simp add: holds_def in_tx_no_insert_def)
  show ?thesis
  proof (cases "processRefund_steps F tid amount reason c1")
    case Inl': (Inl c)
    with processRefund_steps_throw[OF h, of F tid amount reason]
    have "holds (in_tx_no_insert d) c" by (simp add: throws_in_def)
    then have "release (rollback c) = d"
      by (auto simp: holds_def in_tx_no_insert_def counters_le_def rollback_def release_def)
    with assms Inr Inl' show ?thesis
      by (simp add: processRefund_def processRefund_body_def finish_def andThen_def)
  next
    case Inr': (Inr rc)
    obtain r' c where rc: "rc = (r', c)" by (cases rc)
    from processRefund_steps_Inr[OF Inr'[unfolded rc]] c1 assms Inr Inr' rc show ?thesis
      by (auto simp: processRefund_def processRefund_body_def finish_def andThen_def release_def)
  qed
qed

subsection \<open>Well-formed stores\<close>

lemma wf_db_same_rows: "wf_db d \<Longrightarrow> same_rows d d' \<Longrightarrow> wf_db d'"
proof -
  assume wf: "wf_db d" and sr: "same_rows d d'"
  from sr have le: "next_order_id d \<le> next_order_id d'"
    and rows: "orders d' = orders d" "order_items d' = order_items d"
      "transactions d' = transactions d" "order_status_history d' = order_status_history d"
    unfolding same_rows_def counters_le_def
    by (auto dest: arg_cong[where f = orders] arg_cong[where f = order_items]
        arg_cong[where f = transactions] arg_cong[where f = order_status_history])
  from wf le show ?thesis
    by (auto simp: wf_db_def rows list_all_iff)
qed

lemma same_rows_transactions: "same_rows d d' \<Longrightarrow> transactions d' = transactions d"
  unfolding same_rows_def by (auto dest: arg_cong[where f = transactions])

lemma wf_db_placed_order: "wf_db d \<Longrightarrow> wf_db (placed_order d req)"
  by (auto simp: wf_db_def placed_order_def list_all_iff new_order_row_def
      new_transaction_row_def item_row_def less_Suc_eq)

lemma order_found_below_counter:
  "wf_db d \<Longrightarrow> filter (\<lambda>r. o_id r = oid \<and> P r) (orders d) = order # rest
     \<Longrightarrow> oid < next_order_id d"
proof -
  assume wf: "wf_db d" and f: "filter (\<lambda>r. o_id r = oid \<and> P r) (orders d) = order # rest"
  from f have "order \<in> set (filter (\<lambda>r. o_id r = oid \<and> P r) (orders d))" by simp
  then have "order \<in> set (orders d)" "o_id order = oid" by auto
  with wf show ?thesis by (auto simp: wf_db_def list_all_iff)
qed

lemma mark_order_ids [simp]: "o_id ` set (mark_order oid st rows) = o_id ` set rows"
  by (induction rows) (auto simp: mark_order_def)

lemma mark_order_below [simp]:
  "list_all (\<lambda>r. o_id r < n) (mark_order oid st rows) \<longleftrightarrow> list_all (\<lambda>r. o_id r < n) rows"
  by (induction rows) (auto simp: mark_order_def)

lemma wf_db_paid_order:
  "wf_db d \<Longrightarrow> oid < next_order_id d \<Longrightarrow> wf_db (paid_order d oid order method details txid)"
  by (auto simp: wf_db_def paid_order_def)

subsection \<open>updateOrderStatus keeps the transactions\<close>

lemma status_frame_None: "status_frame d oid sv lv \<Longrightarrow> status_frame d oid None lv"
  by (simp add: status_frame_def)

lemma status_frame_statements:
  assumes "status_frame d oid sv lv"
  shows "set_order_status oid status lv = Some lv' \<Longrightarrow> status_frame d oid sv lv'"
    and "insert_status_history oid status notes lv = Some lv' \<Longrightarrow> status_frame d oid sv lv'"
    and "add_stock pid delta lv = Some lv' \<Longrightarrow> status_frame d oid sv lv'"
proof -
  from assms have oid: "oid < next_order_id lv"
    by (auto simp: status_frame_def wf_db_def list_all_iff)
  show "set_order_status oid status lv = Some lv' \<Longrightarrow> status_frame d oid sv lv'"
    using assms
    by (cases "status \<in> set order_status_enum")
      (auto simp: set_order_status_valid status_frame_def wf_db_def
        dest: set_order_status_invalid)
  show "insert_status_history oid status notes lv = Some lv' \<Longrightarrow> status_frame d oid sv lv'"
    using assms oid
    by (auto dest!: insert_status_history_D simp: status_frame_def wf_db_def list_all_iff)
  show "add_stock pid delta lv = Some lv' \<Longrightarrow> status_frame d oid sv lv'"
    using assms
    by (auto dest!: add_stock_D simp: status_frame_def wf_db_def)
qed

lemma return_stock_stays_frame:
  "holds (status_frame d oid) c \<Longrightarrow> stays_in (status_frame d oid) (return_stock F its c)"
proof (induction its arbitrary: c)
  case Nil
  then show ?case by (simp add: Inr_stays)
next
  case (Cons it rest)
  then show ?case
    by (auto intro!: exit_rules query_stays simp: holds_def
        intro: status_frame_statements)
qed

lemma updateOrderStatus_writes_stay:
  assumes "holds (status_frame d oid) c"
  shows "stays_in2 (status_frame d oid) (updateOrderStatus_writes F oid status notes c)"
  using assms unfolding updateOrderStatus_writes_def
  by (auto intro!: exit_rules query_stays items_of_order_stays return_stock_stays_frame
        commit_stays
      simp: holds_def
      intro: status_frame_statements status_frame_None)

lemma updateOrderStatus_keeps:
  assumes "updateOrderStatus F d oid status notes = (r, d')" and "wf_db d"
  shows "wf_db d' \<and> transactions d' = transactions d"
proof (cases "query F Some (getConnection d)")
  case (Inl c)
  with query_Inl_D[OF Inl] assms show ?thesis
    by (auto simp: updateOrderStatus_def updateOrderStatus_body_def finish_def andThen_def
        getConnection_def rollback_def release_def)
next
  case (Inr c1)
  from query_Inr_D[OF Inr] have c1: "saved c1 = None" "live c1 = d"
    by (simp_all add: getConnection_def)
  show ?thesis
  proof (cases "filter (\<lambda>r. o_id r = oid) (orders d) = []")
    case True
    with assms Inr c1 show ?thesis
      by (auto simp: updateOrderStatus_def updateOrderStatus_body_def finish_def andThen_def
          release_def)
  next
    case False
    then have "oid \<in> set (map o_id (orders d))"
      by (auto simp: filter_empty_conv)
    with c1 assms(2) have h: "holds (status_frame d oid) c1"
      by (simp add: holds_def status_frame_def)
    note st = updateOrderStatus_writes_stay[OF h, of F status "notes"]
    from assms(1) Inr False c1
    have f: "finish (updateOrderStatus_writes F oid status notes c1) = (r, d')"
      by (simp add: updateOrderStatus_def updateOrderStatus_body_def andThen_def)
    show ?thesis
    proof (cases "updateOrderStatus_writes F oid status notes c1")
      case Inl': (Inl c)
      with st have "holds (status_frame d oid) c" by (simp add: stays_in2_def)
      with f Inl' show ?thesis
        by (auto simp: finish_def holds_def status_frame_def rollback_def release_def)
    next
      case Inr': (Inr rc)
      obtain r' c where rc: "rc = (r', c)" by (cases rc)
      with st Inr' have "holds (status_frame d oid) c" by (simp add: stays_in2_def)
      with f Inr' rc show ?thesis
        by (auto simp: finish_def holds_def status_frame_def release_def)
    qed
  qed
qed

subsection \<open>Every operation keeps one payment per order\<close>

lemma perform_keeps:
  assumes "wf_db d" and "one_payment_per_order d"
  shows "wf_db (perform op d) \<and> one_payment_per_order (perform op d)"
proof (cases op)
  case (Checkout F req)
  obtain r d' where c: "createOrder F d req = (r, d')" by (cases "createOrder F d req")
  from c show ?thesis
  proof (cases rule: createOrder_cases)
    case thrown
    with assms c Checkout show ?thesis
      by (auto simp: one_payment_per_order_def same_rows_transactions intro: wf_db_same_rows)
  next
    case (rejected s m)
    with assms c Checkout show ?thesis by simp
  next
    case placed
    from assms(1) have "next_order_id d \<notin> set (map t_order_id (transactions d))"
      by (auto simp: wf_db_def list_all_iff)
    with assms(2) have "one_payment_per_order (placed_order d req)"
      by (simp add: one_payment_per_order_def placed_order_def new_transaction_row_def)
    with wf_db_placed_order[OF assms(1), of req] placed c Checkout show ?thesis
      by simp
  qed
next
  case (StatusChange F oid status nts)
  obtain r d' where c: "updateOrderStatus F d oid status nts = (r, d')"
    by (cases "updateOrderStatus F d oid status nts")
  from updateOrderStatus_keeps[OF c assms(1)] assms(2) c StatusChange show ?thesis
    by (simp add: one_payment_per_order_def)
next
  case (Payment F uid oid mth details txid)
  obtain r d' where c: "processPayment F d uid oid mth details txid = (r, d')"
    by (cases "processPayment F d uid oid mth details txid")
  from c show ?thesis
  proof (cases rule: processPayment_cases)
    case thrown
    with assms c Payment show ?thesis
      by (auto simp: one_payment_per_order_def same_rows_transactions intro: wf_db_same_rows)
  next
    case (rejected s m)
    with assms c Payment show ?thesis by simp
  next
    case (paid order rest)
    from paid(2) have "oid \<notin> set (map t_order_id (transactions d))"
      by (auto simp: filter_empty_conv)
    moreover from order_found_below_counter[OF assms(1) paid(3)]
    have "wf_db (paid_order d oid order mth details txid)"
      by (rule wf_db_paid_order[OF assms(1)])
    ultimately show ?thesis
      using assms paid c Payment
      by (auto simp: one_payment_per_order_def paid_order_def)
  qed
next
  case (Refund F tid amount reason)
  obtain r d' where c: "processRefund F d tid amount reason = (r, d')"
    by (cases "processRefund F d tid amount reason")
  from processRefund_changes_nothing[OF c] assms c Refund show ?thesis by simp
qed

lemma run_keeps:
  "wf_db d \<Longrightarrow> one_payment_per_order d \<Longrightarrow>
     wf_db (fold perform ops d) \<and> one_payment_per_order (fold perform ops d)"
proof (induction ops arbitrary: d)
  case Nil
  then show ?case by simp
next
  case (Cons op ops)
  from perform_keeps[OF Cons.prems, of op] Cons.IH[of "perform op d"] show ?case by simp
qed

lemma distinct_map_filter_le:
  "distinct (map f xs) \<Longrightarrow> length (filter (\<lambda>x. f x = k) xs) \<le> 1"
proof (induction xs)
  case Nil
  then show ?case by simp
next
  case (Cons x xs)
  show ?case
  proof (cases "f x = k")
    case True
    with Cons.prems have "k \<notin> f ` set xs" by simp
    then have "\<forall>y \<in> set xs. f y \<noteq> k" by blast
    then have "filter (\<lambda>x. f x = k) xs = []"
      by (simp add: filter_empty_conv)
    with True show ?thesis by simp
  next
    case False
    with Cons show ?thesis by simp
  qed
qed

lemma one_payment_count:
  "one_payment_per_order d \<Longrightarrow> length (payments_of d oid) \<le> 1"
  using distinct_map_filter_le[of t_order_id "transactions d" oid]
  by (simp add: one_payment_per_order_def payments_of_def)

lemma processPayment_already_paid:
  assumes "filter (\<lambda>r. o_id r = oid \<and> o_user_id r = uid) (orders d) \<noteq> []"
    and "payments_of d oid \<noteq> []"
  shows "snd (processPayment F d uid oid method details txid) = d
       \<and> fst (processPayment no_fault d uid oid method details txid)
           = Rejected 400 ''Payment already processed for this order''"
  using assms
  by (auto simp: processPayment_def processPayment_body_def processPayment_steps_def
      payments_of_def finish_def andThen_def beginTransaction_def query_def getConnection_def
      rollback_def release_def no_fault_def Let_def split: list.splits)

section \<open>The claims\<close>

text \<open>
  Claim C3. A checkout in which a line references a product id that does not exist leaves
  the store as it was, whatever the store refuses on the way: no order, order item,
  transaction or status history row is created, no stock is changed, the cart is not
  cleared. For an authenticated caller (\<^verbatim>\<open>req.user.id\<close> is set) and a store that refuses
  nothing, the response is status 400 naming the first missing product.
\<close>

theorem checkout_missing_product:
  assumes "missing_products d (items req) = i # rest"
  shows "snd (createOrder F d req) = d
       \<and> (userId req \<noteq> 0 \<longrightarrow>
            fst (createOrder no_fault d req)
              = Rejected 400 (''Product with ID '' @ show_digits (l_id i) @ '' not found''))"
proof
  show "snd (createOrder F d req) = d"
  proof (cases "beginTransaction F (getConnection d)")
    case (Inl c)
    then show ?thesis
      by (auto simp: createOrder_def createOrder_body_def andThen_def finish_def
          beginTransaction_def getConnection_def rollback_def release_def Let_def
          split: if_splits)
  next
    case (Inr c)
    from begin_Inr_D[OF Inr] have c: "live c = d" "saved c = Some d"
      by (simp_all add: getConnection_def)
    show ?thesis
    proof (cases "userId req = 0")
      case True
      with Inr c show ?thesis
        by (simp add: createOrder_def createOrder_body_def createOrder_steps_def andThen_def
            finish_def release_def)
    next
      case False
      show ?thesis
      proof (cases "verify_products F (items req) c")
        case (Inl c')
        with verify_products_Inl[OF this] c Inr False show ?thesis
          by (simp add: createOrder_def createOrder_body_def createOrder_steps_def andThen_def
              finish_def rollback_def release_def)
      next
        case Inr': (Inr mc)
        obtain m c' where mc: "mc = (m, c')" by (cases mc)
        from verify_products_Inr[OF Inr'[unfolded mc]] c assms
        have "m = Some (l_id i)" "live c' = d" "saved c' = Some d" by auto
        with Inr' mc Inr False show ?thesis
          by (simp add: createOrder_def createOrder_body_def createOrder_steps_def andThen_def
              finish_def release_def)
      qed
    qed
  qed
next
  show "userId req \<noteq> 0 \<longrightarrow>
          fst (createOrder no_fault d req)
            = Rejected 400 (''Product with ID '' @ show_digits (l_id i) @ '' not found'')"
  proof
    assume u: "userId req \<noteq> 0"
    define c where "c = (getConnection d)\<lparr>issued := Suc 0, saved := Some d\<rparr>"
    have b: "beginTransaction no_fault (getConnection d) = Inr c"
      by (simp add: beginTransaction_def no_fault_def getConnection_def c_def Let_def)
    obtain m c' where v: "verify_products no_fault (items req) c = Inr (m, c')"
      using verify_products_no_fault by blast
    from verify_products_Inr[OF v] assms have "m = Some (l_id i)"
      by (simp add: c_def getConnection_def)
    with b v u show "fst (createOrder no_fault d req)
        = Rejected 400 (''Product with ID '' @ show_digits (l_id i) @ '' not found'')"
      by (simp add: createOrder_def createOrder_body_def createOrder_steps_def andThen_def
          finish_def)
  qed
qed

theorem checkout_missing_product_witness:
  "missing_products example_db
     (items (example_request [\<lparr>l_id = 1, l_quantity = 1, l_price = 10\<rparr>,
                              \<lparr>l_id = 3, l_quantity = 2, l_price = 4\<rparr>]))
     = [\<lparr>l_id = 3, l_quantity = 2, l_price = 4\<rparr>]
   \<and> userId (example_request [\<lparr>l_id = 1, l_quantity = 1, l_price = 10\<rparr>,
                              \<lparr>l_id = 3, l_quantity = 2, l_price = 4\<rparr>]) \<noteq> 0
   \<and> snd (createOrder (\<lambda>k. k = 2) example_db
        (example_request [\<lparr>l_id = 1, l_quantity = 1, l_price = 10\<rparr>,
                          \<lparr>l_id = 3, l_quantity = 2, l_price = 4\<rparr>])) = example_db
   \<and> fst (createOrder no_fault example_db
        (example_request [\<lparr>l_id = 1, l_quantity = 1, l_price = 10\<rparr>,
                          \<lparr>l_id = 3, l_quantity = 2, l_price = 4\<rparr>]))
       = Rejected 400 ''Product with ID 3 not found''"
proof -
  have m: "missing_products example_db
     (items (example_request [\<lparr>l_id = 1, l_quantity = 1, l_price = 10\<rparr>,
                              \<lparr>l_id = 3, l_quantity = 2, l_price = 4\<rparr>]))
     = [\<lparr>l_id = 3, l_quantity = 2, l_price = 4\<rparr>]"
    by (simp add: missing_products_def example_db_def example_request_def)
  have u: "userId (example_request [\<lparr>l_id = 1, l_quantity = 1, l_price = 10\<rparr>,
                              \<lparr>l_id = 3, l_quantity = 2, l_price = 4\<rparr>]) \<noteq> 0"
    by (simp add: example_request_def)
  from checkout_missing_product[OF m, of "\<lambda>k. k = 2"] m u show ?thesis
    by (simp add: show_digits.simps)
qed

text \<open>
  Claim C5. \<^verbatim>\<open>processRefund\<close> on a transaction whose status is already \<^verbatim>\<open>refunded\<close>
  performs no write: the store after the call is the store before it, under every fault
  plan. When the store refuses nothing the response is the rejection
  \<^verbatim>\<open>This transaction has already been refunded\<close>, which the controller sends with
  status 400.
\<close>

theorem refund_twice:
  assumes "filter (\<lambda>t. t_id t = tid) (transactions d) = txn # rest"
    and "t_status txn = ''refunded''"
  shows "snd (processRefund F d tid amount reason) = d
       \<and> fst (processRefund no_fault d tid amount reason)
           = Rejected 400 ''This transaction has already been refunded''"
  using assms
  by (auto simp: processRefund_def processRefund_body_def processRefund_steps_def finish_def
      andThen_def beginTransaction_def query_def getConnection_def rollback_def release_def
      no_fault_def Let_def)

theorem refund_twice_witness:
  "filter (\<lambda>t. t_id t = 1) (transactions refunded_db) = [hd (transactions refunded_db)]
   \<and> t_status (hd (transactions refunded_db)) = ''refunded''
   \<and> snd (processRefund (\<lambda>k. k = 1) refunded_db 1 None (Some ''again'')) = refunded_db
   \<and> fst (processRefund no_fault refunded_db 1 None (Some ''again''))
       = Rejected 400 ''This transaction has already been refunded''"
proof -
  have a: "filter (\<lambda>t. t_id t = 1) (transactions refunded_db) = hd (transactions refunded_db) # []"
    by (simp add: refunded_db_def example_db_def)
  have b: "t_status (hd (transactions refunded_db)) = ''refunded''"
    by (simp add: refunded_db_def example_db_def)
  from refund_twice[OF a b, of "\<lambda>k. k = 1" None "Some ''again''"] a b show ?thesis
    by simp
qed

text \<open>
  Claim C10. \<^verbatim>\<open>addToCart\<close> answers with an error and leaves the store, so the cart, as
  it was whenever the quantity asked for exceeds the stock of the product, and whenever
  the product is already in the cart of the user and the quantity in the cart plus the
  quantity asked for exceeds the stock. When the store refuses nothing the error is a
  rejection with status 400.
\<close>

theorem addToCart_enforces_stock:
  assumes "filter (\<lambda>p. p_id p = pid) (products d) = product # rest"
    and "p_stock product < quantity
       \<or> (filter (\<lambda>r. c_user_id r = uid) (carts d) = cart # cs
          \<and> filter (\<lambda>r. ci_cart_id r = c_id cart \<and> ci_product_id r = pid) (cart_items d)
              = existing # es
          \<and> p_stock product < ci_quantity existing + quantity)"
  shows "snd (addToCart F G d uid pid quantity) = d
       \<and> (fst (addToCart F G d uid pid quantity) = Errored
          \<or> rejected_with 400 (fst (addToCart F G d uid pid quantity)))
       \<and> rejected_with 400 (fst (addToCart no_fault G d uid pid quantity))"
  using assms
  by (auto simp: addToCart_def addToCart_body_def addToCart_steps_def find_or_create_cart_def
      andThen_def beginTransaction_def query_def getConnection_def rollback_def release_def
      no_fault_def Let_def split: if_splits)

theorem addToCart_enforces_stock_witness:
  "filter (\<lambda>p. p_id p = 2) (products example_db) = [\<lparr>p_id = 2, p_price = 5 / 2, p_stock = 1\<rparr>]
   \<and> filter (\<lambda>r. c_user_id r = 7) (carts example_db) = [\<lparr>c_id = 1, c_user_id = 7\<rparr>]
   \<and> filter (\<lambda>r. ci_cart_id r = 1 \<and> ci_product_id r = 2) (cart_items example_db)
       = [\<lparr>ci_id = 1, ci_cart_id = 1, ci_product_id = 2, ci_quantity = 1\<rparr>]
   \<and> snd (addToCart no_fault no_fault example_db 7 2 1) = example_db
   \<and> fst (addToCart no_fault no_fault example_db 7 2 1)
       = Rejected 400 ''Only 0 more items available in stock''
   \<and> snd (addToCart no_fault no_fault example_db 8 2 3) = example_db
   \<and> fst (addToCart no_fault no_fault example_db 8 2 3)
       = Rejected 400 ''Only 1 items available in stock''"
proof -
  have p: "filter (\<lambda>p. p_id p = 2) (products example_db)
             = \<lparr>p_id = 2, p_price = 5 / 2, p_stock = 1\<rparr> # []"
    by (simp add: example_db_def)
  have c: "filter (\<lambda>r. c_user_id r = 7) (carts example_db) = \<lparr>c_id = 1, c_user_id = 7\<rparr> # []"
    by (simp add: example_db_def)
  have i: "filter (\<lambda>r. ci_cart_id r = c_id \<lparr>c_id = 1, c_user_id = 7\<rparr> \<and> ci_product_id r = 2)
             (cart_items example_db)
             = \<lparr>ci_id = 1, ci_cart_id = 1, ci_product_id = 2, ci_quantity = 1\<rparr> # []"
    by (simp add: example_db_def)
  have r1: "fst (addToCart no_fault no_fault example_db 7 2 1)
       = Rejected 400 ''Only 0 more items available in stock''"
    by (simp add: run_defs show_digits.simps)
  have r2: "fst (addToCart no_fault no_fault example_db 8 2 3)
       = Rejected 400 ''Only 1 items available in stock''"
    by (simp add: run_defs show_digits.simps)
  from addToCart_enforces_stock[OF p, of 1 7 _ _ _ _ no_fault no_fault] c i
  have "snd (addToCart no_fault no_fault example_db 7 2 1) = example_db" by simp
  moreover from addToCart_enforces_stock[OF p, of 3 8 _ _ _ _ no_fault no_fault]
  have "snd (addToCart no_fault no_fault example_db 8 2 3) = example_db" by simp
  ultimately show ?thesis using p c i r1 r2 by simp
qed


text \<open>
  Claim C1 asks that \<^verbatim>\<open>updateOrderStatus\<close> commit all its writes or none. The
  controller calls \<^verbatim>\<open>commit()\<close> and \<^verbatim>\<open>rollback()\<close> but, unlike \<^verbatim>\<open>createOrder\<close>,
  \<^verbatim>\<open>processPayment\<close> and \<^verbatim>\<open>processRefund\<close>, never \<^verbatim>\<open>beginTransaction()\<close>: every
  statement is committed as it runs and the rollback undoes nothing. On the example store,
  cancelling order 1 with notes of 65536 characters (one more than the \<^verbatim>\<open>TEXT\<close> column
  holds) ends in an error with the order cancelled, no history row and no stock returned;
  and when the store refuses the second stock increment, the order is cancelled, the
  history row is written, the stock of product 1 is returned and that of product 2 is not.
\<close>

theorem status_change_partial_commit:
  "fst (updateOrderStatus no_fault example_db 1 ''cancelled''
          (Some (replicate 65536 CHR ''x''))) = Errored
   \<and> map o_status (orders (snd (updateOrderStatus no_fault example_db 1 ''cancelled''
         (Some (replicate 65536 CHR ''x''))))) = [''cancelled'']
   \<and> order_status_history (snd (updateOrderStatus no_fault example_db 1 ''cancelled''
         (Some (replicate 65536 CHR ''x'')))) = order_status_history example_db
   \<and> products (snd (updateOrderStatus no_fault example_db 1 ''cancelled''
         (Some (replicate 65536 CHR ''x'')))) = products example_db
   \<and> fst (updateOrderStatus (\<lambda>k. k = 5) example_db 1 ''cancelled'' None) = Errored
   \<and> map o_status (orders (snd (updateOrderStatus (\<lambda>k. k = 5) example_db 1 ''cancelled'' None)))
       = [''cancelled'']
   \<and> map h_status (order_status_history
         (snd (updateOrderStatus (\<lambda>k. k = 5) example_db 1 ''cancelled'' None)))
       = [''pending'', ''cancelled'']
   \<and> map p_stock (products example_db) = [5, 1]
   \<and> map p_stock (products (snd (updateOrderStatus (\<lambda>k. k = 5) example_db 1 ''cancelled'' None)))
       = [7, 1]"
  by (simp add: run_defs)

text \<open>
  Claim C2 asks that no stock ever goes below zero. \<^verbatim>\<open>createOrder\<close> decrements the
  stock by the quantity of each line without comparing the two (the check that
  \<^verbatim>\<open>addToCart\<close> makes), and the \<^verbatim>\<open>stock\<close> column is a signed \<^verbatim>\<open>INT\<close>. On the example
  store product 2 has stock 1; a checkout of 3 units of it succeeds and leaves stock -2.
\<close>

theorem checkout_drives_stock_negative:
  "fst (createOrder no_fault example_db
         (example_request [\<lparr>l_id = 2, l_quantity = 3, l_price = 5 / 2\<rparr>]))
     = Sent 201 (OrderCreated 2 ''ORD-2'' ''TXN-2'')
   \<and> map p_stock (products example_db) = [5, 1]
   \<and> map p_stock (products (snd (createOrder no_fault example_db
         (example_request [\<lparr>l_id = 2, l_quantity = 3, l_price = 5 / 2\<rparr>]))))
     = [5, - 2]"
  by (simp add: run_defs)

text \<open>
  Claim C7 asks that \<^verbatim>\<open>processRefund\<close> on a completed transaction set the transaction
  and its order to \<^verbatim>\<open>refunded\<close>, append a history row and return the stock. The
  \<^verbatim>\<open>status\<close> columns of \<^verbatim>\<open>orders\<close> and \<^verbatim>\<open>order_status_history\<close> are
  \<^verbatim>\<open>ENUM('pending', 'processing', 'shipped', 'delivered', 'cancelled')\<close>: the value
  \<^verbatim>\<open>'refunded'\<close> the controller writes is not among them, the statement fails, and the
  transaction is rolled back. On the example store the refund of the completed transaction
  1 ends in an error and changes nothing.
\<close>

theorem refund_of_completed_transaction_fails:
  "map t_status (transactions example_db) = [''completed'']
   \<and> processRefund no_fault example_db 1 None None = (Errored, example_db)"
  by (simp add: run_defs)

text \<open>
  Claim C9 asks that the status of an order and the last entry of its status history
  never diverge. \<^verbatim>\<open>updateOrderStatus\<close> writes the two in separate statements outside
  any transaction. On the example store, a change of order 1 to \<^verbatim>\<open>shipped\<close> with notes
  of 65536 characters updates the order and then fails on the history row: the order says
  \<^verbatim>\<open>shipped\<close>, its history ends with \<^verbatim>\<open>pending\<close>.
\<close>

theorem status_diverges_from_history:
  "fst (updateOrderStatus no_fault example_db 1 ''shipped'' (Some (replicate 65536 CHR ''x'')))
     = Errored
   \<and> map o_status (orders example_db) = [''pending'']
   \<and> map h_status (order_status_history example_db) = [''pending'']
   \<and> map o_status (orders (snd (updateOrderStatus no_fault example_db 1 ''shipped''
         (Some (replicate 65536 CHR ''x'')))))
       = [''shipped'']
   \<and> map h_status (order_status_history (snd (updateOrderStatus no_fault example_db 1 ''shipped''
         (Some (replicate 65536 CHR ''x'')))))
       = [''pending'']"
  by (simp add: run_defs)






text \<open>
  Claim C6. Starting from a store in which no two transaction rows reference the same
  order, after any sequence of checkouts, status changes, payments and refunds, whatever
  the store refuses on the way, no two transaction rows reference the same order: every
  order has at most one. In such a store, \<^verbatim>\<open>processPayment\<close> by the owner of an order
  that already has a transaction inserts nothing (the store is unchanged under every
  fault plan), answers \<^verbatim>\<open>Payment already processed for this order\<close> with status 400
  when the store refuses nothing, and leaves exactly one transaction row for the order.
\<close>

theorem one_transaction_per_order:
  assumes "wf_db d" and "one_payment_per_order d"
  shows "one_payment_per_order (fold perform ops d)
       \<and> length (payments_of (fold perform ops d) oid) \<le> 1
       \<and> (filter (\<lambda>r. o_id r = oid \<and> o_user_id r = uid) (orders (fold perform ops d)) \<noteq> []
            \<and> payments_of (fold perform ops d) oid \<noteq> []
          \<longrightarrow> snd (processPayment F (fold perform ops d) uid oid method details txid)
                = fold perform ops d
              \<and> fst (processPayment no_fault (fold perform ops d) uid oid method details txid)
                = Rejected 400 ''Payment already processed for this order''
              \<and> length (payments_of
                  (snd (processPayment F (fold perform ops d) uid oid method details txid)) oid)
                = 1)"
proof -
  let ?e = "fold perform ops d"
  from run_keeps[OF assms] have one: "one_payment_per_order ?e" by simp
  note le = one_payment_count[OF one, of oid]
  show ?thesis
  proof (intro conjI impI)
    show "one_payment_per_order ?e" by (rule one)
    show "length (payments_of ?e oid) \<le> 1" by (rule le)
  next
    assume a: "filter (\<lambda>r. o_id r = oid \<and> o_user_id r = uid) (orders ?e) \<noteq> []
      \<and> payments_of ?e oid \<noteq> []"
    then have p: "snd (processPayment F ?e uid oid method details txid) = ?e
       \<and> fst (processPayment no_fault ?e uid oid method details txid)
           = Rejected 400 ''Payment already processed for this order''"
      by (intro processPayment_already_paid) simp_all
    from p show "snd (processPayment F ?e uid oid method details txid) = ?e" by simp
    from p show "fst (processPayment no_fault ?e uid oid method details txid)
           = Rejected 400 ''Payment already processed for this order''" by simp
    from a le have "length (payments_of ?e oid) = 1"
      by (cases "payments_of ?e oid") auto
    with p show "length (payments_of
        (snd (processPayment F ?e uid oid method details txid)) oid) = 1"
      by simp
  qed
qed

theorem one_transaction_per_order_witness:
  "wf_db example_db \<and> one_payment_per_order example_db
   \<and> map t_order_id (transactions (fold perform example_ops example_db)) = [1, 2]
   \<and> filter (\<lambda>r. o_id r = 2 \<and> o_user_id r = 7) (orders (fold perform example_ops example_db)) \<noteq> []
   \<and> payments_of (fold perform example_ops example_db) 2 \<noteq> []
   \<and> one_payment_per_order (fold perform example_ops example_db)
   \<and> snd (processPayment (\<lambda>k. k = 3) (fold perform example_ops example_db) 7 2 ''card'' None
        ''TXN-4'') = fold perform example_ops example_db
   \<and> fst (processPayment no_fault (fold perform example_ops example_db) 7 2 ''card'' None
        ''TXN-4'') = Rejected 400 ''Payment already processed for this order''
   \<and> length (payments_of (snd (processPayment (\<lambda>k. k = 3)
        (fold perform example_ops example_db) 7 2 ''card'' None ''TXN-4'')) 2) = 1"
proof -
  let ?e = "fold perform example_ops example_db"
  have a: "wf_db example_db"
    by (simp add: wf_db_def example_db_def)
  have b: "one_payment_per_order example_db"
    by (simp add: one_payment_per_order_def example_db_def)
  have t: "map t_order_id (transactions ?e) = [1, 2]"
    by (simp add: example_ops_def example_lines_def run_defs)
  have o: "filter (\<lambda>r. o_id r = 2 \<and> o_user_id r = 7) (orders ?e) \<noteq> []"
    by (simp add: example_ops_def example_lines_def run_defs)
  have p: "payments_of ?e 2 \<noteq> []"
    by (simp add: payments_of_def example_ops_def example_lines_def run_defs)
  note c6 = one_transaction_per_order[OF a b, of example_ops 2 7 "\<lambda>k. k = 3" "''card''" None
      "''TXN-4''"]
  from c6 o p have "length (payments_of (snd (processPayment (\<lambda>k. k = 3) ?e 7 2 ''card'' None
      ''TXN-4'')) 2) = 1"
    by blast
  with c6 a b t o p show ?thesis by simp
qed

end
